theory Spec2Isabelle
  imports Complex_Main "HOL-Library.Sublist"
begin

section \<open>Time values and the Date methods used by the reminder model\<close>

text \<open>
  \<^verbatim>\<open>src/models/Reminder.js\<close> computes with JavaScript \<^verbatim>\<open>Date\<close> objects. A Date holds a
  time value: an integral number of milliseconds since 1970-01-01T00:00Z, modelled here
  as an \<^typ>\<open>int\<close>. The calendar functions below are those of the ECMAScript language
  specification (Day, TimeWithinDay, DayFromYear, YearFromTime, MonthFromTime,
  DateFromTime, MakeDay, MakeDate), in the order in which the specification introduces
  them.

  Modelling decisions for the runtime:
  \<^item> the local time zone of the process is a parameter \<open>tz\<close>: the offset from UTC, in
    milliseconds, that the runtime has in effect at a time value, and the offset with
    which it reads a local time; both may change from one time to another, as they do
    with daylight saving;
  \<^item> a Number that need not be whole (\<^verbatim>\<open>recurrencePattern.interval\<close>,
    \<^verbatim>\<open>occurrenceCount\<close>, the argument of a Date setter) is a rational number; rounding
    of floating-point arithmetic, \<^verbatim>\<open>NaN\<close> and the infinities are not modelled;
  \<^item> time values are mathematical integers: the limit of \<open>8.64e15\<close> milliseconds on
    either side of the epoch, beyond which a Date becomes invalid, is not modelled.
\<close>

definition msPerDay :: int where
  "msPerDay = 86400000"

definition Day :: "int \<Rightarrow> int" where
  "Day t = t div msPerDay"

definition TimeWithinDay :: "int \<Rightarrow> int" where
  "TimeWithinDay t = t mod msPerDay"

definition DaysInYear :: "int \<Rightarrow> int" where
  "DaysInYear y =
     (if y mod 4 \<noteq> 0 then 365
      else if y mod 100 \<noteq> 0 then 366
      else if y mod 400 \<noteq> 0 then 365
      else 366)"

definition DayFromYear :: "int \<Rightarrow> int" where
  "DayFromYear y =
     365 * (y - 1970) + (y - 1969) div 4 - (y - 1901) div 100 + (y - 1601) div 400"

lemma div_step:
  fixes y p :: int
  assumes "0 < p"
  shows "y div p = (y - 1) div p + (if y mod p = 0 then 1 else 0)"
proof (cases "y mod p = 0")
  case True
  have "y - 1 = p * (y div p - 1) + (p - 1)"
    using True mult_div_mod_eq [of p y] by (simp add: algebra_simps)
  then have "(y - 1) div p = y div p - 1"
    using assms by (intro int_div_pos_eq [of "y - 1" p "y div p - 1" "p - 1"]) simp_all
  with True show ?thesis by simp
next
  case False
  have "0 \<le> y mod p" and less: "y mod p < p"
    using assms by simp_all
  with False have nonneg: "0 \<le> y mod p - 1"
    by simp
  have "y - 1 = p * (y div p) + (y mod p - 1)"
    using mult_div_mod_eq [of p y] by simp
  then have "(y - 1) div p = y div p"
    using nonneg less by (intro int_div_pos_eq [of "y - 1" p "y div p" "y mod p - 1"]) simp_all
  with False show ?thesis by simp
qed

lemma div_shift:
  fixes y p k :: int
  assumes "p \<noteq> 0"
  shows "(y - k * p) div p = y div p - k"
  using div_mult_self1 [of p y "- k"] assms by simp

lemma leap_terms_next:
  fixes y :: int
  shows "(y + 1 - 1969) div 4 = y div 4 - 492"
    and "(y + 1 - 1901) div 100 = y div 100 - 19"
    and "(y + 1 - 1601) div 400 = y div 400 - 4"
proof -
  have "y + 1 - 1969 = y - 492 * 4" by simp
  then show "(y + 1 - 1969) div 4 = y div 4 - 492"
    using div_shift [of 4 y 492] by simp
  have "y + 1 - 1901 = y - 19 * 100" by simp
  then show "(y + 1 - 1901) div 100 = y div 100 - 19"
    using div_shift [of 100 y 19] by simp
  have "y + 1 - 1601 = y - 4 * 400" by simp
  then show "(y + 1 - 1601) div 400 = y div 400 - 4"
    using div_shift [of 400 y 4] by simp
qed

lemma leap_terms_this:
  fixes y :: int
  shows "(y - 1969) div 4 = (y - 1) div 4 - 492"
    and "(y - 1901) div 100 = (y - 1) div 100 - 19"
    and "(y - 1601) div 400 = (y - 1) div 400 - 4"
proof -
  have "y - 1969 = (y - 1) - 492 * 4" by simp
  then show "(y - 1969) div 4 = (y - 1) div 4 - 492"
    using div_shift [of 4 "y - 1" 492] by simp
  have "y - 1901 = (y - 1) - 19 * 100" by simp
  then show "(y - 1901) div 100 = (y - 1) div 100 - 19"
    using div_shift [of 100 "y - 1" 19] by simp
  have "y - 1601 = (y - 1) - 4 * 400" by simp
  then show "(y - 1601) div 400 = (y - 1) div 400 - 4"
    using div_shift [of 400 "y - 1" 4] by simp
qed

text \<open>Each year starts \<open>DaysInYear\<close> days after the one before.\<close>

lemma DayFromYear_Suc: "DayFromYear (y + 1) = DayFromYear y + DaysInYear y"
proof -
  define e4 :: int where "e4 = (if y mod 4 = 0 then 1 else 0)"
  define e100 :: int where "e100 = (if y mod 100 = 0 then 1 else 0)"
  define e400 :: int where "e400 = (if y mod 400 = 0 then 1 else 0)"
  define q4 where "q4 = (y - 1) div 4"
  define q100 where "q100 = (y - 1) div 100"
  define q400 where "q400 = (y - 1) div 400"
  have m: "y mod 100 = 0 \<Longrightarrow> y mod 4 = 0" "y mod 400 = 0 \<Longrightarrow> y mod 100 = 0"
    by fastforce+
  have days: "DaysInYear y = 365 + e4 - e100 + e400"
    using m by (auto simp add: DaysInYear_def e4_def e100_def e400_def)
  have s4: "y div 4 = q4 + e4"
    unfolding e4_def q4_def by (rule div_step) simp
  have s100: "y div 100 = q100 + e100"
    unfolding e100_def q100_def by (rule div_step) simp
  have s400: "y div 400 = q400 + e400"
    unfolding e400_def q400_def by (rule div_step) simp
  have "DayFromYear (y + 1) =
      365 * (y + 1 - 1970) + (q4 + e4 - 492) - (q100 + e100 - 19) + (q400 + e400 - 4)"
    by (simp only: DayFromYear_def leap_terms_next s4 s100 s400)
  moreover have "DayFromYear y =
      365 * (y - 1970) + (q4 - 492) - (q100 - 19) + (q400 - 4)"
    by (simp only: DayFromYear_def leap_terms_this q4_def q100_def q400_def)
  ultimately show ?thesis
    using days by simp
qed

lemma DaysInYear_pos: "365 \<le> DaysInYear y"
  by (simp add: DaysInYear_def)

text \<open>
  YearFromTime is "the largest integer \<open>y\<close> such that the year \<open>y\<close> starts at or before
  the time value". It is computed by a search from an estimate: down while the year starts
  after the day, then up while the next year starts at or before it.
\<close>

function year_down :: "int \<Rightarrow> int \<Rightarrow> int" where
  "year_down d y = (if d < DayFromYear y then year_down d (y - 1) else y)"
  by pat_completeness auto
termination
proof (relation "measure (\<lambda>(d, y). nat (DayFromYear y - d))")
  show "wf (measure (\<lambda>(d, y). nat (DayFromYear y - d)))" by simp
next
  fix d y :: int
  assume less: "d < DayFromYear y"
  have "DayFromYear y = DayFromYear (y - 1) + DaysInYear (y - 1)"
    using DayFromYear_Suc [of "y - 1"] by simp
  with less DaysInYear_pos [of "y - 1"]
  show "((d, y - 1), (d, y)) \<in> measure (\<lambda>(d, y). nat (DayFromYear y - d))"
    by simp
qed

function year_up :: "int \<Rightarrow> int \<Rightarrow> int" where
  "year_up d y = (if DayFromYear (y + 1) \<le> d then year_up d (y + 1) else y)"
  by pat_completeness auto
termination
proof (relation "measure (\<lambda>(d, y). nat (d + 1 - DayFromYear y))")
  show "wf (measure (\<lambda>(d, y). nat (d + 1 - DayFromYear y)))" by simp
next
  fix d y :: int
  assume le: "DayFromYear (y + 1) \<le> d"
  with DayFromYear_Suc [of y] DaysInYear_pos [of y]
  show "((d, y + 1), (d, y)) \<in> measure (\<lambda>(d, y). nat (d + 1 - DayFromYear y))"
    by simp
qed

declare year_down.simps [simp del]
declare year_up.simps [simp del]

definition YearFromDay :: "int \<Rightarrow> int" where
  "YearFromDay d = year_up d (year_down d (1970 + d div 365))"

definition YearFromTime :: "int \<Rightarrow> int" where
  "YearFromTime t = YearFromDay (Day t)"

definition InLeapYear :: "int \<Rightarrow> int" where
  "InLeapYear t = (if DaysInYear (YearFromTime t) = 366 then 1 else 0)"

definition DayWithinYear :: "int \<Rightarrow> int" where
  "DayWithinYear t = Day t - DayFromYear (YearFromTime t)"

text \<open>
  \<open>MonthStart m leap\<close> is the number of the first day of month \<open>m\<close> (0 = January) within
  a year, read off the table of MonthFromTime; \<open>leap\<close> is 1 in a leap year and 0 otherwise.
\<close>

definition MonthStart :: "int \<Rightarrow> int \<Rightarrow> int" where
  "MonthStart m leap =
     (if m = 0 then 0
      else if m = 1 then 31
      else if m = 2 then 59 + leap
      else if m = 3 then 90 + leap
      else if m = 4 then 120 + leap
      else if m = 5 then 151 + leap
      else if m = 6 then 181 + leap
      else if m = 7 then 212 + leap
      else if m = 8 then 243 + leap
      else if m = 9 then 273 + leap
      else if m = 10 then 304 + leap
      else 334 + leap)"

definition MonthFromTime :: "int \<Rightarrow> int" where
  "MonthFromTime t =
     (let d = DayWithinYear t; leap = InLeapYear t in
      if d < 31 then 0
      else if d < 59 + leap then 1
      else if d < 90 + leap then 2
      else if d < 120 + leap then 3
      else if d < 151 + leap then 4
      else if d < 181 + leap then 5
      else if d < 212 + leap then 6
      else if d < 243 + leap then 7
      else if d < 273 + leap then 8
      else if d < 304 + leap then 9
      else if d < 334 + leap then 10
      else 11)"

definition DateFromTime :: "int \<Rightarrow> int" where
  "DateFromTime t = DayWithinYear t - MonthStart (MonthFromTime t) (InLeapYear t) + 1"

text \<open>
  ToIntegerOrInfinity, on a finite Number: the fraction is dropped, toward zero.
\<close>

definition ToIntegerOrInfinity :: "rat \<Rightarrow> int" where
  "ToIntegerOrInfinity x = (if 0 \<le> x then \<lfloor>x\<rfloor> else \<lceil>x\<rceil>)"

text \<open>
  MakeDay truncates its three arguments, then gives the day number of the first day of
  month \<open>m mod 12\<close> of year \<open>y + m div 12\<close>, plus \<open>dt - 1\<close>. A date outside the month,
  or a month outside \<open>0..11\<close>, rolls over into the neighbouring months and years.
\<close>

definition MakeDay :: "rat \<Rightarrow> rat \<Rightarrow> rat \<Rightarrow> int" where
  "MakeDay year month date =
     (let y = ToIntegerOrInfinity year;
          m = ToIntegerOrInfinity month;
          dt = ToIntegerOrInfinity date;
          ym = y + m div 12;
          mn = m mod 12
      in DayFromYear ym + MonthStart mn (if DaysInYear ym = 366 then 1 else 0) + dt - 1)"

definition MakeDate :: "int \<Rightarrow> int \<Rightarrow> int" where
  "MakeDate day time = day * msPerDay + time"

text \<open>
  The local time zone. \<open>LocalTZA tz t isUTC\<close> is the offset of local time from UTC in
  milliseconds: for a time value \<open>t\<close> when \<open>isUTC\<close> is true, and for a local time \<open>t\<close>
  when it is false. LocalTime turns a time value into local time, UTC a local time
  into a time value.
\<close>

record TimeZone =
  offsetAtUTC :: "int \<Rightarrow> int"
  offsetAtLocal :: "int \<Rightarrow> int"

definition LocalTZA :: "TimeZone \<Rightarrow> int \<Rightarrow> bool \<Rightarrow> int" where
  "LocalTZA tz t isUTC = (if isUTC then offsetAtUTC tz t else offsetAtLocal tz t)"

definition LocalTime :: "TimeZone \<Rightarrow> int \<Rightarrow> int" where
  "LocalTime tz t = t + LocalTZA tz t True"

definition UTC :: "TimeZone \<Rightarrow> int \<Rightarrow> int" where
  "UTC tz t = t - LocalTZA tz t False"

definition getDate :: "TimeZone \<Rightarrow> int \<Rightarrow> int" where
  "getDate tz tv = DateFromTime (LocalTime tz tv)"

definition getMonth :: "TimeZone \<Rightarrow> int \<Rightarrow> int" where
  "getMonth tz tv = MonthFromTime (LocalTime tz tv)"

definition getFullYear :: "TimeZone \<Rightarrow> int \<Rightarrow> int" where
  "getFullYear tz tv = YearFromTime (LocalTime tz tv)"

definition setDate :: "TimeZone \<Rightarrow> int \<Rightarrow> rat \<Rightarrow> int" where
  "setDate tz tv dt =
     (let t = LocalTime tz tv;
          newDate =
            MakeDate (MakeDay (of_int (YearFromTime t)) (of_int (MonthFromTime t)) dt)
              (TimeWithinDay t)
      in UTC tz newDate)"

definition setMonth :: "TimeZone \<Rightarrow> int \<Rightarrow> rat \<Rightarrow> int" where
  "setMonth tz tv m =
     (let t = LocalTime tz tv;
          dt = of_int (DateFromTime t);
          newDate = MakeDate (MakeDay (of_int (YearFromTime t)) m dt) (TimeWithinDay t)
      in UTC tz newDate)"

definition setFullYear :: "TimeZone \<Rightarrow> int \<Rightarrow> rat \<Rightarrow> int" where
  "setFullYear tz tv y =
     (let t = LocalTime tz tv;
          m = of_int (MonthFromTime t);
          dt = of_int (DateFromTime t);
          newDate = MakeDate (MakeDay y m dt) (TimeWithinDay t)
      in UTC tz newDate)"

subsection \<open>Facts about the calendar functions\<close>

lemma MonthFromTime_range: "0 \<le> MonthFromTime t \<and> MonthFromTime t \<le> 11"
  by (simp add: MonthFromTime_def Let_def)

lemma ToIntegerOrInfinity_of_int: "ToIntegerOrInfinity (of_int n) = n"
  by (simp add: ToIntegerOrInfinity_def)

lemma Day_TimeWithinDay: "Day t * msPerDay + TimeWithinDay t = t"
  by (simp add: Day_def TimeWithinDay_def)







subsection \<open>The calendar in the words of the specification\<close>


definition firstDayOfMonth :: "int \<Rightarrow> int" where
  "firstDayOfMonth k =
     DayFromYear (k div 12) +
     MonthStart (k mod 12) (if DaysInYear (k div 12) = 366 then 1 else 0)"

definition monthIndex :: "int \<Rightarrow> int" where
  "monthIndex t = 12 * YearFromTime t + MonthFromTime t"

text \<open>
  By how many whole units a date, month or year number \<open>base\<close> moves when the Number
  \<open>x\<close> is added to it and the sum is truncated: \<open>x\<close> rounded down, or rounded up when
  the sum is negative. For a whole \<open>x\<close> it is \<open>x\<close>.
\<close>

definition wholeSteps :: "int \<Rightarrow> rat \<Rightarrow> int" where
  "wholeSteps base x = (if 0 \<le> of_int base + x then \<lfloor>x\<rfloor> else \<lceil>x\<rceil>)"


text \<open>
  What the setters compute in local time, before the result is turned into a time
  value: the same time of day on the day \<open>date - 1\<close> days after the first day of the
  month \<open>n\<close> months on.
\<close>

definition localMonths :: "int \<Rightarrow> int \<Rightarrow> int" where
  "localMonths n t =
     MakeDate (firstDayOfMonth (monthIndex t + n) + (DateFromTime t - 1)) (TimeWithinDay t)"



lemma wholeSteps_ToIntegerOrInfinity:
  "ToIntegerOrInfinity (of_int base + x) = base + wholeSteps base x"
proof -
  have "\<lfloor>of_int base + x\<rfloor> = base + \<lfloor>x\<rfloor>" and "\<lceil>of_int base + x\<rceil> = base + \<lceil>x\<rceil>"
    by linarith+
  then show ?thesis
    by (simp add: ToIntegerOrInfinity_def wholeSteps_def)
qed

lemma wholeSteps_of_int: "wholeSteps base (of_int n) = n"
  by (simp add: wholeSteps_def)

lemma wholeSteps_nonneg: "0 \<le> base \<Longrightarrow> 0 \<le> x \<Longrightarrow> wholeSteps base x = \<lfloor>x\<rfloor>"
  by (simp add: wholeSteps_def)

lemma MakeDay_firstDayOfMonth:
  "MakeDay y m dt =
     firstDayOfMonth (12 * ToIntegerOrInfinity y + ToIntegerOrInfinity m) +
     (ToIntegerOrInfinity dt - 1)"
proof -
  have "(12 * a + b) div 12 = a + b div 12" and "(12 * a + b) mod 12 = b mod 12" for a b :: int
    by simp_all
  then show ?thesis
    by (simp add: MakeDay_def firstDayOfMonth_def Let_def)
qed

lemma firstDayOfMonth_monthIndex:
  "firstDayOfMonth (monthIndex t) + (DateFromTime t - 1) = Day t"
proof -
  have "monthIndex t div 12 = YearFromTime t" and "monthIndex t mod 12 = MonthFromTime t"
    using MonthFromTime_range [of t] by (simp_all add: monthIndex_def)
  then show ?thesis
    by (simp add: firstDayOfMonth_def DateFromTime_def DayWithinYear_def InLeapYear_def)
qed

lemma setDate_getDate:
  "setDate tz tv (of_int (getDate tz tv) + i) =
     UTC tz (LocalTime tz tv +
       wholeSteps (DateFromTime (LocalTime tz tv)) i * msPerDay)"
proof -
  let ?t = "LocalTime tz tv"
  have "MakeDay (of_int (YearFromTime ?t)) (of_int (MonthFromTime ?t))
      (of_int (DateFromTime ?t) + i) = Day ?t + wholeSteps (DateFromTime ?t) i"
    using firstDayOfMonth_monthIndex [of ?t]
    by (simp add: MakeDay_firstDayOfMonth ToIntegerOrInfinity_of_int
        wholeSteps_ToIntegerOrInfinity monthIndex_def)
  moreover have "(Day ?t + n) * msPerDay + TimeWithinDay ?t = ?t + n * msPerDay" for n
    using Day_TimeWithinDay [of ?t] by (simp add: algebra_simps)
  ultimately show ?thesis
    by (simp add: setDate_def getDate_def MakeDate_def Let_def)
qed

lemma setMonth_getMonth:
  "setMonth tz tv (of_int (getMonth tz tv) + i) =
     UTC tz (localMonths (wholeSteps (MonthFromTime (LocalTime tz tv)) i) (LocalTime tz tv))"
proof -
  let ?t = "LocalTime tz tv"
  have "MakeDay (of_int (YearFromTime ?t)) (of_int (MonthFromTime ?t) + i)
      (of_int (DateFromTime ?t)) =
    firstDayOfMonth (monthIndex ?t + wholeSteps (MonthFromTime ?t) i) + (DateFromTime ?t - 1)"
    by (simp add: MakeDay_firstDayOfMonth ToIntegerOrInfinity_of_int
        wholeSteps_ToIntegerOrInfinity monthIndex_def add.assoc)
  then show ?thesis
    by (simp add: setMonth_def getMonth_def localMonths_def Let_def)
qed

lemma setFullYear_getFullYear:
  "setFullYear tz tv (of_int (getFullYear tz tv) + i) =
     UTC tz (localMonths (12 * wholeSteps (YearFromTime (LocalTime tz tv)) i)
       (LocalTime tz tv))"
proof -
  let ?t = "LocalTime tz tv"
  have "12 * (YearFromTime ?t + wholeSteps (YearFromTime ?t) i) + MonthFromTime ?t =
      monthIndex ?t + 12 * wholeSteps (YearFromTime ?t) i"
    by (simp add: monthIndex_def algebra_simps)
  then have "MakeDay (of_int (YearFromTime ?t) + i) (of_int (MonthFromTime ?t))
      (of_int (DateFromTime ?t)) =
    firstDayOfMonth (monthIndex ?t + 12 * wholeSteps (YearFromTime ?t) i) +
      (DateFromTime ?t - 1)"
    by (simp only: MakeDay_firstDayOfMonth ToIntegerOrInfinity_of_int
        wholeSteps_ToIntegerOrInfinity)
  then show ?thesis
    by (simp add: setFullYear_def getFullYear_def localMonths_def Let_def)
qed












section \<open>The reminder document\<close>

text \<open>
  The schema of \<^verbatim>\<open>src/models/Reminder.js\<close>. Dates are time values, Numbers are
  rational, a field that may be \<^verbatim>\<open>null\<close> or absent is an \<open>option\<close>, object ids and
  enumerated strings are strings.
  A field name is a constant of the theory and must not be a keyword, so the field
  \<^verbatim>\<open>type\<close> of the recurrence pattern is called \<open>ptype\<close>, the fields \<^verbatim>\<open>completedAt\<close>
  and \<^verbatim>\<open>notes\<close> of an occurrence \<open>occ_completedAt\<close> and \<open>occ_notes\<close>, and the field
  \<^verbatim>\<open>note\<close> of the reminder \<open>note_ref\<close>. The remaining paths of the document (\<^verbatim>\<open>location\<close>,
  \<^verbatim>\<open>_id\<close>, the \<^verbatim>\<open>createdAt\<close> and \<^verbatim>\<open>updatedAt\<close> timestamps) live in the extension
  part of the record: every function below is defined on the record scheme and passes
  that part through.
\<close>

record RecurrencePattern =
  ptype :: string
  interval :: rat
  daysOfWeek :: "int list"
  dayOfMonth :: "int option"
  endDate :: "int option"
  occurrenceCount :: "rat option"

record Occurrence =
  scheduledFor :: int
  occ_completedAt :: "int option"
  wasSkipped :: bool
  occ_notes :: "string option"

record Reminder =
  user :: string
  firebaseUid :: string
  note_ref :: string
  title :: string
  description :: string
  reminderDateTime :: int
  timezone :: string
  isRecurring :: bool
  recurrencePattern :: RecurrencePattern
  isCompleted :: bool
  completedAt :: "int option"
  isActive :: bool
  isSnoozed :: bool
  snoozeUntil :: "int option"
  notificationSent :: bool
  notificationMethods :: "string list"
  priority :: string
  category :: string
  tags :: "string list"
  occurrences :: "Occurrence list"
  lastTriggered :: "int option"
  nextTrigger :: "int option"

text \<open>
  \<^verbatim>\<open>calculateNextTrigger\<close> (lines 260-291), on a server whose local time zone is \<open>tz\<close>.
  \<open>current\<close> is a fresh Date copied from \<^verbatim>\<open>reminderDateTime\<close>; the \<^verbatim>\<open>switch\<close> on
  \<^verbatim>\<open>pattern.type\<close> is the chain of comparisons, its \<^verbatim>\<open>default\<close> the last branch. The
  argument of each setter is the sum of a getter's whole number and the Number
  \<^verbatim>\<open>pattern.interval\<close>.
\<close>

definition calculateNextTrigger :: "TimeZone \<Rightarrow> 'a Reminder_scheme \<Rightarrow> 'a Reminder_scheme" where
  "calculateNextTrigger tz r =
     (if \<not> isRecurring r then r\<lparr>nextTrigger := Some (reminderDateTime r)\<rparr>
      else
        let current = reminderDateTime r;
            pattern = recurrencePattern r;
            current' =
              (if ptype pattern = ''daily'' then
                 setDate tz current (of_int (getDate tz current) + interval pattern)
               else if ptype pattern = ''weekly'' then
                 setDate tz current (of_int (getDate tz current) + 7 * interval pattern)
               else if ptype pattern = ''monthly'' then
                 setMonth tz current (of_int (getMonth tz current) + interval pattern)
               else if ptype pattern = ''yearly'' then
                 setFullYear tz current (of_int (getFullYear tz current) + interval pattern)
               else
                 setDate tz current (of_int (getDate tz current) + 1))
        in r\<lparr>nextTrigger := Some current'\<rparr>)"

text \<open>
  \<^verbatim>\<open>scheduleNextOccurrence\<close> (lines 293-314). \<open>now\<close> is the value of the
  \<^verbatim>\<open>new Date()\<close> it reads. A Date object is truthy, \<^verbatim>\<open>null\<close> is not; a Number is
  truthy unless it is zero.
\<close>

definition scheduleNextOccurrence ::
  "TimeZone \<Rightarrow> int \<Rightarrow> 'a Reminder_scheme \<Rightarrow> 'a Reminder_scheme" where
  "scheduleNextOccurrence tz now r =
     (if \<not> isRecurring r then r
      else if (case endDate (recurrencePattern r) of
                 None \<Rightarrow> False
               | Some e \<Rightarrow> now > e) then r\<lparr>isActive := False\<rparr>
      else if (case occurrenceCount (recurrencePattern r) of
                 None \<Rightarrow> False
               | Some c \<Rightarrow> c \<noteq> 0 \<and> of_nat (length (occurrences r)) \<ge> c)
           then r\<lparr>isActive := False\<rparr>
      else
        let r1 = calculateNextTrigger tz r
        in (case nextTrigger r1 of
              None \<Rightarrow> r1
            | Some t \<Rightarrow>
                r1\<lparr>reminderDateTime := t, isCompleted := False,
                   completedAt := None, notificationSent := False\<rparr>))"

text \<open>
  The \<^verbatim>\<open>pre('save')\<close> hook (lines 205-220), and \<^verbatim>\<open>save\<close>: the hook runs on the
  document, which is then written to the store; the result is the document as saved.
  Schema validation is taken to pass.
\<close>

definition pre_save :: "TimeZone \<Rightarrow> int \<Rightarrow> 'a Reminder_scheme \<Rightarrow> 'a Reminder_scheme" where
  "pre_save tz now r =
     (let r1 = (if isRecurring r \<and> isActive r \<and> \<not> isCompleted r then calculateNextTrigger tz r
                else if \<not> isRecurring r then r\<lparr>nextTrigger := Some (reminderDateTime r)\<rparr>
                else r)
      in if isSnoozed r1 \<and> (case snoozeUntil r1 of None \<Rightarrow> False | Some s \<Rightarrow> now > s)
         then r1\<lparr>isSnoozed := False, snoozeUntil := None\<rparr>
         else r1)"

definition save :: "TimeZone \<Rightarrow> int \<Rightarrow> 'a Reminder_scheme \<Rightarrow> 'a Reminder_scheme" where
  "save tz now r = pre_save tz now r"

text \<open>
  \<^verbatim>\<open>markCompleted\<close> (lines 223-239). It reads the clock three times: \<open>t1\<close> for
  \<^verbatim>\<open>completedAt\<close>, \<open>t2\<close> inside \<^verbatim>\<open>scheduleNextOccurrence\<close>, \<open>t3\<close> inside the save
  hook. The pushed occurrence gets the schema defaults for the paths it does not give.
\<close>

definition markCompleted ::
  "TimeZone \<Rightarrow> int \<Rightarrow> int \<Rightarrow> int \<Rightarrow> 'a Reminder_scheme \<Rightarrow> 'a Reminder_scheme" where
  "markCompleted tz t1 t2 t3 r =
     (let r1 = r\<lparr>isCompleted := True, completedAt := Some t1\<rparr>;
          r2 = (if isRecurring r1 then
                  scheduleNextOccurrence tz t2
                    (r1\<lparr>occurrences := occurrences r1 @
                         [\<lparr>scheduledFor = reminderDateTime r1,
                           occ_completedAt = completedAt r1,
                           wasSkipped = False, occ_notes = None\<rparr>]\<rparr>)
                else r1)
      in save tz t3 r2)"

text \<open>
  \<^verbatim>\<open>dismiss\<close> (lines 247-258): for a recurring reminder it pushes a skipped occurrence
  and schedules the next one, at the clock reading \<open>t2\<close>; the save follows at \<open>t3\<close>.
\<close>

definition dismiss ::
  "TimeZone \<Rightarrow> int \<Rightarrow> int \<Rightarrow> 'a Reminder_scheme \<Rightarrow> 'a Reminder_scheme" where
  "dismiss tz t2 t3 r =
     (if isRecurring r then
        save tz t3
          (scheduleNextOccurrence tz t2
             (r\<lparr>occurrences := occurrences r @
                  [\<lparr>scheduledFor = reminderDateTime r, occ_completedAt = None,
                    wasSkipped = True, occ_notes = None\<rparr>]\<rparr>))
      else save tz t3 (r\<lparr>isActive := False\<rparr>))"

text \<open>
  \<^verbatim>\<open>findDueForNotification\<close> (lines 392-404) is a query on the collection, a list of
  documents here. \<open>dueForNotification\<close> is its filter document: a conjunction of
  conditions on paths, the last an \<^verbatim>\<open>$or\<close>. A comparison \<^verbatim>\<open>$lte\<close> with a date does
  not match a path that is \<^verbatim>\<open>null\<close>.
\<close>

definition dueForNotification :: "int \<Rightarrow> 'a Reminder_scheme \<Rightarrow> bool" where
  "dueForNotification now r \<longleftrightarrow>
     isActive r = True \<and>
     isCompleted r = False \<and>
     notificationSent r = False \<and>
     reminderDateTime r \<le> now \<and>
     (isSnoozed r = False \<or> (case snoozeUntil r of None \<Rightarrow> False | Some s \<Rightarrow> s \<le> now))"

definition findDueForNotification :: "int \<Rightarrow> 'a Reminder_scheme list \<Rightarrow> 'a Reminder_scheme list" where
  "findDueForNotification now coll = filter (dueForNotification now) coll"

subsection \<open>The next trigger in the words of the specification\<close>


text \<open>
  The record that \<^verbatim>\<open>markCompleted\<close> appends to the occurrence history:
  \<^verbatim>\<open>{scheduledFor, completedAt}\<close>, not skipped, without notes.
\<close>

definition completedOccurrence :: "int \<Rightarrow> int \<Rightarrow> Occurrence" where
  "completedOccurrence s t =
     \<lparr>scheduledFor = s, occ_completedAt = Some t, wasSkipped = False, occ_notes = None\<rparr>"

text \<open>
  The local time that the \<^verbatim>\<open>switch\<close> of \<^verbatim>\<open>calculateNextTrigger\<close> reaches from the local
  time \<open>t\<close>, and the time value that it stores.
\<close>

definition nextLocal :: "RecurrencePattern \<Rightarrow> int \<Rightarrow> int" where
  "nextLocal pattern t =
     (if ptype pattern = ''daily'' then
        t + wholeSteps (DateFromTime t) (interval pattern) * msPerDay
      else if ptype pattern = ''weekly'' then
        t + wholeSteps (DateFromTime t) (7 * interval pattern) * msPerDay
      else if ptype pattern = ''monthly'' then
        localMonths (wholeSteps (MonthFromTime t) (interval pattern)) t
      else if ptype pattern = ''yearly'' then
        localMonths (12 * wholeSteps (YearFromTime t) (interval pattern)) t
      else t + msPerDay)"

definition nextTime :: "TimeZone \<Rightarrow> 'a Reminder_scheme \<Rightarrow> int" where
  "nextTime tz r = UTC tz (nextLocal (recurrencePattern r) (LocalTime tz (reminderDateTime r)))"

subsection \<open>Concrete zones and reminders\<close>

text \<open>
  A server in UTC, and a server in New York during 2024: five hours behind UTC, four
  from 2024-03-10T07:00Z to 2024-11-03T06:00Z. In local time the clocks go from 02:00
  to 03:00 on 10 March and from 02:00 back to 01:00 on 3 November; a local time that is
  skipped or repeated is read with the offset before the change.
\<close>

definition utcZone :: TimeZone where
  "utcZone = \<lparr>offsetAtUTC = (\<lambda>t. 0), offsetAtLocal = (\<lambda>t. 0)\<rparr>"

definition newYork :: TimeZone where
  "newYork =
     \<lparr>offsetAtUTC =
        (\<lambda>t. if 1710054000000 \<le> t \<and> t < 1730613600000 then - 14400000 else - 18000000),
      offsetAtLocal =
        (\<lambda>t. if 1710039600000 \<le> t \<and> t < 1730599200000 then - 14400000 else - 18000000)\<rparr>"

text \<open>
  A reminder as the schema creates it from the required paths, with every default:
  not recurring, daily pattern of interval 1, active, pending, due on
  2024-01-01T10:00Z. The concrete properties below start from it.
\<close>

definition defaultPattern :: RecurrencePattern where
  "defaultPattern =
     \<lparr>ptype = ''daily'', interval = 1, daysOfWeek = [], dayOfMonth = None,
      endDate = None, occurrenceCount = None\<rparr>"

definition newReminder :: Reminder where
  "newReminder =
     \<lparr>user = ''65a000000000000000000001'', firebaseUid = ''uid-A'',
      note_ref = ''65a0000000000000000000aa'', title = ''Water the plants'',
      description = [], reminderDateTime = 1704103200000, timezone = ''UTC'',
      isRecurring = False, recurrencePattern = defaultPattern,
      isCompleted = False, completedAt = None, isActive = True,
      isSnoozed = False, snoozeUntil = None, notificationSent = False,
      notificationMethods = [], priority = ''medium'', category = ''personal'',
      tags = [], occurrences = [], lastTriggered = None, nextTrigger = None\<rparr>"




text \<open>
  A reminder that repeats every three days, at most twice, and not after
  2024-01-10T00:00Z.
\<close>

definition twiceReminder :: Reminder where
  "twiceReminder =
     newReminder\<lparr>isRecurring := True,
       recurrencePattern :=
         defaultPattern\<lparr>interval := 3, endDate := Some 1704844800000,
           occurrenceCount := Some 2\<rparr>\<rparr>"

text \<open>A reminder that repeats every three days, without an end.\<close>

definition dailyReminder :: Reminder where
  "dailyReminder =
     newReminder\<lparr>isRecurring := True, recurrencePattern := defaultPattern\<lparr>interval := 3\<rparr>\<rparr>"

text \<open>A reminder whose notification has been sent, and one snoozed until 10:10Z.\<close>

definition sentReminder :: Reminder where
  "sentReminder = newReminder\<lparr>notificationSent := True\<rparr>"

definition snoozedReminder :: Reminder where
  "snoozedReminder = newReminder\<lparr>isSnoozed := True, snoozeUntil := Some 1704103800000\<rparr>"

text \<open>
  Reminders limited to two occurrences: one whose end date, 2023-12-31T05:20Z, has
  passed, and one without an end date.
\<close>

definition endedReminder :: Reminder where
  "endedReminder =
     newReminder\<lparr>isRecurring := True,
       recurrencePattern :=
         defaultPattern\<lparr>interval := 3, endDate := Some 1704000000000,
           occurrenceCount := Some 2\<rparr>\<rparr>"

definition countedReminder :: Reminder where
  "countedReminder =
     newReminder\<lparr>isRecurring := True,
       recurrencePattern := defaultPattern\<lparr>interval := 3, occurrenceCount := Some 2\<rparr>\<rparr>"

section \<open>Properties of the reminder model\<close>

subsection \<open>Auxiliary facts\<close>

lemma calculateNextTrigger_nextTime:
  assumes "isRecurring r"
  shows "calculateNextTrigger tz r = r\<lparr>nextTrigger := Some (nextTime tz r)\<rparr>"
  using assms
  by (simp add: calculateNextTrigger_def nextTime_def nextLocal_def Let_def wholeSteps_def
      setDate_getDate setMonth_getMonth setFullYear_getFullYear)


text \<open>
  When the zone reads the new local time with the offset that it had at the old time
  value, days of local time are days of \<open>msPerDay\<close> milliseconds.
\<close>

lemma UTC_LocalTime_days:
  assumes "LocalTZA tz (LocalTime tz tv + n * msPerDay) False = LocalTZA tz tv True"
  shows "UTC tz (LocalTime tz tv + n * msPerDay) = tv + n * msPerDay"
  using assms by (simp add: UTC_def) (simp add: LocalTime_def)

lemma scheduleNextOccurrence_stop:
  assumes "isRecurring r"
    and "(\<exists>e. endDate (recurrencePattern r) = Some e \<and> e < now) \<or>
         (\<exists>c. occurrenceCount (recurrencePattern r) = Some c \<and> c \<noteq> 0 \<and>
              c \<le> of_nat (length (occurrences r)))"
  shows "scheduleNextOccurrence tz now r = r\<lparr>isActive := False\<rparr>"
  using assms by (auto simp add: scheduleNextOccurrence_def split: option.splits)

lemma scheduleNextOccurrence_go:
  assumes "isRecurring r"
    and "\<forall>e. endDate (recurrencePattern r) = Some e \<longrightarrow> now \<le> e"
    and "\<forall>c. occurrenceCount (recurrencePattern r) = Some c \<longrightarrow>
           c = 0 \<or> of_nat (length (occurrences r)) < c"
  shows "scheduleNextOccurrence tz now r =
     r\<lparr>nextTrigger := Some (nextTime tz r), reminderDateTime := nextTime tz r,
       isCompleted := False, completedAt := None, notificationSent := False\<rparr>"
proof -
  have e: "\<not> (case endDate (recurrencePattern r) of None \<Rightarrow> False | Some e \<Rightarrow> now > e)"
    using assms(2) by (auto split: option.splits)
  have c: "\<not> (case occurrenceCount (recurrencePattern r) of None \<Rightarrow> False
       | Some c \<Rightarrow> c \<noteq> 0 \<and> of_nat (length (occurrences r)) \<ge> c)"
    using assms(3) by (auto split: option.splits)
  show ?thesis
    unfolding scheduleNextOccurrence_def
    using assms(1) e c by (simp add: calculateNextTrigger_nextTime)
qed

lemma markCompleted_recurring:
  assumes "isRecurring r"
  shows "markCompleted tz t1 t2 t3 r =
     save tz t3 (scheduleNextOccurrence tz t2
       (r\<lparr>isCompleted := True, completedAt := Some t1,
          occurrences := occurrences r @ [completedOccurrence (reminderDateTime r) t1]\<rparr>))"
  using assms by (simp add: markCompleted_def completedOccurrence_def Let_def)

lemma save_fields:
  "isRecurring (save tz now r) = isRecurring r"
  "recurrencePattern (save tz now r) = recurrencePattern r"
  "occurrences (save tz now r) = occurrences r"
  "reminderDateTime (save tz now r) = reminderDateTime r"
  "isActive (save tz now r) = isActive r"
  "isCompleted (save tz now r) = isCompleted r"
  "completedAt (save tz now r) = completedAt r"
  "notificationSent (save tz now r) = notificationSent r"
  by (simp_all add: save_def pre_save_def calculateNextTrigger_def Let_def)

lemma save_inactive:
  assumes "isRecurring r" and "\<not> isActive r"
  shows "nextTrigger (save tz now r) = nextTrigger r"
  using assms by (simp add: save_def pre_save_def Let_def)

lemma nextTime_frame:
  "nextTime tz (r\<lparr>isCompleted := a, completedAt := b, occurrences := c\<rparr>) = nextTime tz r"
  by (simp add: nextTime_def)

lemma markCompleted_stop:
  assumes "isRecurring r"
    and "(\<exists>e. endDate (recurrencePattern r) = Some e \<and> e < t2) \<or>
         (\<exists>c. occurrenceCount (recurrencePattern r) = Some c \<and> c \<noteq> 0 \<and>
              c \<le> of_nat (length (occurrences r)) + 1)"
  shows "markCompleted tz t1 t2 t3 r =
     save tz t3 (r\<lparr>isCompleted := True, completedAt := Some t1,
          occurrences := occurrences r @ [completedOccurrence (reminderDateTime r) t1],
          isActive := False\<rparr>)"
proof -
  let ?p = "r\<lparr>isCompleted := True, completedAt := Some t1,
    occurrences := occurrences r @ [completedOccurrence (reminderDateTime r) t1]\<rparr>"
  have "isRecurring ?p"
    using assms(1) by simp
  moreover have "(\<exists>e. endDate (recurrencePattern ?p) = Some e \<and> e < t2) \<or>
      (\<exists>c. occurrenceCount (recurrencePattern ?p) = Some c \<and> c \<noteq> 0 \<and>
         c \<le> of_nat (length (occurrences ?p)))"
    using assms(2) by (simp add: add.commute)
  ultimately have "scheduleNextOccurrence tz t2 ?p = ?p\<lparr>isActive := False\<rparr>"
    by (rule scheduleNextOccurrence_stop)
  then show ?thesis
    using assms(1) by (simp add: markCompleted_recurring)
qed

lemma markCompleted_go:
  assumes "isRecurring r"
    and "\<forall>e. endDate (recurrencePattern r) = Some e \<longrightarrow> t2 \<le> e"
    and "\<forall>c. occurrenceCount (recurrencePattern r) = Some c \<longrightarrow>
           c = 0 \<or> of_nat (length (occurrences r)) + 1 < c"
  shows "markCompleted tz t1 t2 t3 r =
     save tz t3 (r\<lparr>
          occurrences := occurrences r @ [completedOccurrence (reminderDateTime r) t1],
          nextTrigger := Some (nextTime tz r), reminderDateTime := nextTime tz r,
          isCompleted := False, completedAt := None, notificationSent := False\<rparr>)"
proof -
  let ?p = "r\<lparr>isCompleted := True, completedAt := Some t1,
    occurrences := occurrences r @ [completedOccurrence (reminderDateTime r) t1]\<rparr>"
  have "isRecurring ?p"
    using assms(1) by simp
  moreover have "\<forall>e. endDate (recurrencePattern ?p) = Some e \<longrightarrow> t2 \<le> e"
    using assms(2) by simp
  moreover have "\<forall>c. occurrenceCount (recurrencePattern ?p) = Some c \<longrightarrow>
      c = 0 \<or> of_nat (length (occurrences ?p)) < c"
    using assms(3) by (simp add: add.commute)
  ultimately have "scheduleNextOccurrence tz t2 ?p =
      ?p\<lparr>nextTrigger := Some (nextTime tz ?p), reminderDateTime := nextTime tz ?p,
        isCompleted := False, completedAt := None, notificationSent := False\<rparr>"
    by (rule scheduleNextOccurrence_go)
  then show ?thesis
    using assms(1) by (simp add: markCompleted_recurring nextTime_frame)
qed

subsection \<open>The claims about reminders\<close>




text \<open>
  Claim C2, as amended. For every recurring reminder with \<open>occurrenceCount = 2\<close>, the
  second \<open>markCompleted\<close> call clears the active flag; when the reminder is active, its
  occurrence history is empty and its end date is unset or has not passed at the first
  call, it is still active after the first call, so that it becomes inactive exactly
  after its second completion; a third call schedules nothing further
  (\<open>reminderDateTime\<close> and \<open>nextTrigger\<close> are not advanced). Likewise, whenever the end
  date of the pattern is set and has passed, \<open>scheduleNextOccurrence\<close> only clears the
  active flag of a recurring reminder. The times \<open>a1 a2 a3\<close>, \<open>b1 b2 b3\<close>, \<open>c1 c2 c3\<close>
  are the clock readings of the three calls.
\<close>

theorem recurrence_terminates:
  "(isRecurring r \<and> occurrenceCount (recurrencePattern r) = Some 2 \<longrightarrow>
     (let r1 = markCompleted tz a1 a2 a3 r;
          r2 = markCompleted tz b1 b2 b3 r1;
          r3 = markCompleted tz c1 c2 c3 r2
      in \<not> isActive r2 \<and>
         (occurrences r = [] \<and> isActive r \<and>
            (\<forall>e. endDate (recurrencePattern r) = Some e \<longrightarrow> a2 \<le> e) \<longrightarrow> isActive r1) \<and>
         \<not> isActive r3 \<and>
         reminderDateTime r3 = reminderDateTime r2 \<and>
         nextTrigger r3 = nextTrigger r2)) \<and>
   (isRecurring r \<and> endDate (recurrencePattern r) = Some e \<and> e < now \<longrightarrow>
      scheduleNextOccurrence tz now r = r\<lparr>isActive := False\<rparr>)"
proof (intro conjI impI)
  assume "isRecurring r \<and> endDate (recurrencePattern r) = Some e \<and> e < now"
  then show "scheduleNextOccurrence tz now r = r\<lparr>isActive := False\<rparr>"
    by (intro scheduleNextOccurrence_stop) auto
next
  assume "isRecurring r \<and> occurrenceCount (recurrencePattern r) = Some 2"
  then have rec: "isRecurring r" and cnt: "occurrenceCount (recurrencePattern r) = Some 2"
    by simp_all
  define r1 where "r1 = markCompleted tz a1 a2 a3 r"
  define r2 where "r2 = markCompleted tz b1 b2 b3 r1"
  define r3 where "r3 = markCompleted tz c1 c2 c3 r2"
  have r1: "isRecurring r1" "recurrencePattern r1 = recurrencePattern r"
    "length (occurrences r1) = length (occurrences r) + 1"
    unfolding r1_def using rec
    by (simp_all add: markCompleted_recurring save_fields scheduleNextOccurrence_def
        calculateNextTrigger_def Let_def split: option.splits)
  have stop2: "(\<exists>e. endDate (recurrencePattern r1) = Some e \<and> e < b2) \<or>
      (\<exists>c. occurrenceCount (recurrencePattern r1) = Some c \<and> c \<noteq> 0 \<and>
         c \<le> of_nat (length (occurrences r1)) + 1)"
    using r1 cnt by simp
  note m2 = markCompleted_stop [OF r1(1) stop2, of tz b1 b3, folded r2_def]
  have r2: "isRecurring r2" "recurrencePattern r2 = recurrencePattern r"
    "length (occurrences r2) = length (occurrences r) + 2" "\<not> isActive r2"
    using r1 by (simp_all add: m2 save_fields)
  have stop3: "(\<exists>e. endDate (recurrencePattern r2) = Some e \<and> e < c2) \<or>
      (\<exists>c. occurrenceCount (recurrencePattern r2) = Some c \<and> c \<noteq> 0 \<and>
         c \<le> of_nat (length (occurrences r2)) + 1)"
    using r2 cnt by simp
  note m3 = markCompleted_stop [OF r2(1) stop3, of tz c1 c3, folded r3_def]
  have r3: "\<not> isActive r3" "reminderDateTime r3 = reminderDateTime r2"
    "nextTrigger r3 = nextTrigger r2"
    using r2 by (simp_all add: m3 save_fields save_inactive)
  have first: "isActive r1"
    if fresh: "occurrences r = [] \<and> isActive r \<and>
      (\<forall>e. endDate (recurrencePattern r) = Some e \<longrightarrow> a2 \<le> e)"
  proof -
    have go: "\<forall>c. occurrenceCount (recurrencePattern r) = Some c \<longrightarrow>
        c = 0 \<or> of_nat (length (occurrences r)) + 1 < c"
      using cnt fresh by simp
    from fresh have "\<forall>e. endDate (recurrencePattern r) = Some e \<longrightarrow> a2 \<le> e"
      by simp
    from markCompleted_go [OF rec this go, of tz a1 a3, folded r1_def] fresh
    show ?thesis by (simp add: save_fields)
  qed
  from r2 r3 first
  show "let r1 = markCompleted tz a1 a2 a3 r;
          r2 = markCompleted tz b1 b2 b3 r1;
          r3 = markCompleted tz c1 c2 c3 r2
      in \<not> isActive r2 \<and>
         (occurrences r = [] \<and> isActive r \<and>
            (\<forall>e. endDate (recurrencePattern r) = Some e \<longrightarrow> a2 \<le> e) \<longrightarrow> isActive r1) \<and>
         \<not> isActive r3 \<and>
         reminderDateTime r3 = reminderDateTime r2 \<and>
         nextTrigger r3 = nextTrigger r2"
    unfolding Let_def r1_def [symmetric] r2_def [symmetric] r3_def [symmetric]
    by blast
qed

text \<open>
  The theorem at the reminder limited to two occurrences and ending on 2024-01-10,
  completed on 2024-01-01 and twice on 2024-01-04, and scheduled again on 2024-01-11.
\<close>

theorem recurrence_terminates_witness:
  "isRecurring twiceReminder \<and>
   occurrenceCount (recurrencePattern twiceReminder) = Some 2 \<and>
   isActive (markCompleted utcZone 1704103260000 1704103260001 1704103260002 twiceReminder) \<and>
   \<not> isActive (markCompleted utcZone 1704362460000 1704362460001 1704362460002
      (markCompleted utcZone 1704103260000 1704103260001 1704103260002 twiceReminder)) \<and>
   \<not> isActive (markCompleted utcZone 1704362520000 1704362520001 1704362520002
      (markCompleted utcZone 1704362460000 1704362460001 1704362460002
        (markCompleted utcZone 1704103260000 1704103260001 1704103260002 twiceReminder))) \<and>
   reminderDateTime (markCompleted utcZone 1704362520000 1704362520001 1704362520002
      (markCompleted utcZone 1704362460000 1704362460001 1704362460002
        (markCompleted utcZone 1704103260000 1704103260001 1704103260002 twiceReminder))) =
   reminderDateTime (markCompleted utcZone 1704362460000 1704362460001 1704362460002
        (markCompleted utcZone 1704103260000 1704103260001 1704103260002 twiceReminder)) \<and>
   scheduleNextOccurrence utcZone 1704931200000 twiceReminder = twiceReminder\<lparr>isActive := False\<rparr>"
proof -
  have facts: "isRecurring twiceReminder"
    "occurrenceCount (recurrencePattern twiceReminder) = Some 2"
    "occurrences twiceReminder = []" "isActive twiceReminder"
    "endDate (recurrencePattern twiceReminder) = Some 1704844800000"
    by (simp_all add: twiceReminder_def newReminder_def defaultPattern_def)
  from recurrence_terminates [of twiceReminder utcZone
      1704103260000 1704103260001 1704103260002
      1704362460000 1704362460001 1704362460002
      1704362520000 1704362520001 1704362520002
      1704844800000 1704931200000] facts
  show ?thesis
    by (simp add: Let_def)
qed

text \<open>
  Claim C2 as stated has every recurring reminder with \<open>occurrenceCount = 2\<close> inactive
  exactly after its second completion. A reminder whose end date has passed is inactive
  after its first completion; so is a reminder that was dismissed once before, since the
  skipped occurrence that \<open>dismiss\<close> records counts toward \<open>occurrenceCount\<close>.
\<close>

theorem recurrence_terminates_counterexample:
  "isRecurring endedReminder \<and> occurrenceCount (recurrencePattern endedReminder) = Some 2 \<and>
   isActive endedReminder \<and>
   \<not> isActive (markCompleted utcZone 1704103260000 1704103260001 1704103260002 endedReminder) \<and>
   isRecurring countedReminder \<and>
   occurrenceCount (recurrencePattern countedReminder) = Some 2 \<and>
   isActive (dismiss utcZone 1704103260001 1704103260002 countedReminder) \<and>
   occurrenceCount
     (recurrencePattern (dismiss utcZone 1704103260001 1704103260002 countedReminder)) = Some 2 \<and>
   \<not> isActive (markCompleted utcZone 1704362460000 1704362460001 1704362460002
      (dismiss utcZone 1704103260001 1704103260002 countedReminder))"
  by code_simp

text \<open>
  Claim C3. For every reminder with \<open>isRecurring = false\<close>, after any save (that is,
  after the pre-save normalization has run), \<open>nextTrigger\<close> equals \<open>reminderDateTime\<close>;
  the save leaves \<open>reminderDateTime\<close> itself as it was.
\<close>

theorem save_non_recurring:
  assumes "\<not> isRecurring r"
  shows "nextTrigger (save tz now r) = Some (reminderDateTime (save tz now r)) \<and>
         reminderDateTime (save tz now r) = reminderDateTime r"
  using assms by (simp add: save_def pre_save_def Let_def)

theorem save_non_recurring_witness:
  "\<not> isRecurring newReminder \<and>
   nextTrigger (save utcZone 1704103200500 newReminder) = Some 1704103200000 \<and>
   reminderDateTime (save utcZone 1704103200500 newReminder) = 1704103200000"
proof -
  have flag: "\<not> isRecurring newReminder"
    by (simp add: newReminder_def)
  have "reminderDateTime newReminder = 1704103200000"
    by (simp add: newReminder_def)
  with flag save_non_recurring [OF flag, of utcZone 1704103200500] show ?thesis
    by simp
qed

text \<open>
  Claim C4. For an active recurring daily reminder with interval 3 and
  \<open>reminderDateTime\<close> 2024-01-01T10:00Z (time value 1704103200000), with no
  termination condition met (end date not passed, occurrence count not reached by the
  appended record), on a server whose zone reads the local time three days on with the
  offset that it has at 2024-01-01T10:00Z, as every zone of one offset does,
  \<open>markCompleted\<close> appends the occurrence record
  \<open>{scheduledFor: 2024-01-01T10:00Z, completedAt: now}\<close> to the history, advances
  \<open>reminderDateTime\<close> to 2024-01-04T10:00Z (time value 1704362400000), and leaves the
  reminder pending again: not completed, \<open>completedAt\<close> null, notification not sent.
\<close>

theorem markCompleted_daily_3:
  assumes "isRecurring r" and "isActive r"
    and "ptype (recurrencePattern r) = ''daily''"
    and "interval (recurrencePattern r) = 3"
    and "reminderDateTime r = 1704103200000"
    and "\<forall>e. endDate (recurrencePattern r) = Some e \<longrightarrow> t2 \<le> e"
    and "\<forall>c. occurrenceCount (recurrencePattern r) = Some c \<longrightarrow>
           c = 0 \<or> of_nat (length (occurrences r)) + 1 < c"
    and "offsetAtLocal tz (1704103200000 + offsetAtUTC tz 1704103200000 + 3 * msPerDay) =
           offsetAtUTC tz 1704103200000"
  shows "let r' = markCompleted tz t1 t2 t3 r
         in occurrences r' = occurrences r @
              [\<lparr>scheduledFor = 1704103200000, occ_completedAt = Some t1,
                wasSkipped = False, occ_notes = None\<rparr>] \<and>
            reminderDateTime r' = 1704362400000 \<and>
            isCompleted r' = False \<and> completedAt r' = None \<and>
            notificationSent r' = False \<and> isActive r'"
proof -
  have steps: "wholeSteps base 3 = 3" for base
    using wholeSteps_of_int [of base 3] by simp
  have "LocalTZA tz (LocalTime tz 1704103200000 + 3 * msPerDay) False =
      LocalTZA tz 1704103200000 True"
    using assms(8) by (simp add: LocalTZA_def LocalTime_def)
  then have "UTC tz (LocalTime tz 1704103200000 + 3 * msPerDay) = 1704103200000 + 3 * msPerDay"
    by (rule UTC_LocalTime_days)
  then have "nextTime tz r = 1704362400000"
    using assms(3,4,5) by (simp add: nextTime_def nextLocal_def steps) (simp add: msPerDay_def)
  with markCompleted_go [OF assms(1,6,7), of tz t1 t3] assms(2,5)
  show ?thesis
    by (simp add: Let_def save_fields completedOccurrence_def)
qed

text \<open>
  The theorem on the server in New York, which is five hours behind UTC on both days.
\<close>

theorem markCompleted_daily_3_witness:
  "isRecurring dailyReminder \<and> isActive dailyReminder \<and>
   ptype (recurrencePattern dailyReminder) = ''daily'' \<and>
   interval (recurrencePattern dailyReminder) = 3 \<and>
   reminderDateTime dailyReminder = 1704103200000 \<and>
   endDate (recurrencePattern dailyReminder) = None \<and>
   occurrenceCount (recurrencePattern dailyReminder) = None \<and>
   offsetAtLocal newYork (1704103200000 + offsetAtUTC newYork 1704103200000 + 3 * msPerDay) =
     offsetAtUTC newYork 1704103200000 \<and>
   occurrences (markCompleted newYork 1704103260000 1704103260001 1704103260002 dailyReminder) =
     [\<lparr>scheduledFor = 1704103200000, occ_completedAt = Some 1704103260000,
       wasSkipped = False, occ_notes = None\<rparr>] \<and>
   reminderDateTime (markCompleted newYork 1704103260000 1704103260001 1704103260002 dailyReminder) =
     1704362400000 \<and>
   isCompleted (markCompleted newYork 1704103260000 1704103260001 1704103260002 dailyReminder) = False \<and>
   completedAt (markCompleted newYork 1704103260000 1704103260001 1704103260002 dailyReminder) = None \<and>
   notificationSent (markCompleted newYork 1704103260000 1704103260001 1704103260002 dailyReminder) = False \<and>
   isActive (markCompleted newYork 1704103260000 1704103260001 1704103260002 dailyReminder)"
proof -
  have facts: "isRecurring dailyReminder" "isActive dailyReminder"
    "ptype (recurrencePattern dailyReminder) = ''daily''"
    "interval (recurrencePattern dailyReminder) = 3"
    "reminderDateTime dailyReminder = 1704103200000"
    "endDate (recurrencePattern dailyReminder) = None"
    "occurrenceCount (recurrencePattern dailyReminder) = None"
    "occurrences dailyReminder = []"
    by (simp_all add: dailyReminder_def newReminder_def defaultPattern_def)
  have zone: "offsetAtLocal newYork
      (1704103200000 + offsetAtUTC newYork 1704103200000 + 3 * msPerDay) =
      offsetAtUTC newYork 1704103200000"
    by (simp add: newYork_def msPerDay_def)
  have "\<forall>e. endDate (recurrencePattern dailyReminder) = Some e \<longrightarrow> 1704103260001 \<le> e"
    and "\<forall>c. occurrenceCount (recurrencePattern dailyReminder) = Some c \<longrightarrow>
           c = 0 \<or> of_nat (length (occurrences dailyReminder)) + 1 < c"
    using facts by simp_all
  from markCompleted_daily_3 [OF facts(1-5) this zone, of 1704103260000 1704103260002] facts zone
  show ?thesis
    by (simp add: Let_def)
qed

text \<open>
  Claim C5, as amended. \<open>findDueForNotification\<close> returns exactly the reminders of the
  collection that are active, incomplete, whose notification has not been sent, whose
  \<open>reminderDateTime\<close> is at or before now, and that are either not snoozed or have a
  \<open>snoozeUntil\<close> at or before now.
\<close>

theorem findDueForNotification_filter:
  fixes coll :: "'a Reminder_scheme list"
  shows "findDueForNotification now coll =
     filter (\<lambda>r. isActive r \<and> \<not> isCompleted r \<and> \<not> notificationSent r \<and>
                 reminderDateTime r \<le> now \<and>
                 (\<not> isSnoozed r \<or> (\<exists>s. snoozeUntil r = Some s \<and> s \<le> now))) coll"
proof -
  have "dueForNotification now = (\<lambda>r :: 'a Reminder_scheme. isActive r \<and> \<not> isCompleted r \<and> \<not> notificationSent r \<and>
                 reminderDateTime r \<le> now \<and>
                 (\<not> isSnoozed r \<or> (\<exists>s. snoozeUntil r = Some s \<and> s \<le> now)))"
    by (auto simp add: dueForNotification_def fun_eq_iff split: option.splits)
  then show ?thesis
    by (simp only: findDueForNotification_def)
qed

theorem findDueForNotification_filter_witness:
  "findDueForNotification 1704103500000 [newReminder, sentReminder, snoozedReminder] = [newReminder] \<and>
   findDueForNotification 1704103800000 [newReminder, sentReminder, snoozedReminder] =
     [newReminder, snoozedReminder]"
  using findDueForNotification_filter [of 1704103500000 "[newReminder, sentReminder, snoozedReminder]"]
    findDueForNotification_filter [of 1704103800000 "[newReminder, sentReminder, snoozedReminder]"]
  by (simp add: sentReminder_def snoozedReminder_def newReminder_def)

text \<open>
  Claim C5 as stated leaves out the condition on \<open>notificationSent\<close>: a reminder that is
  active, incomplete, due and not snoozed, but whose notification has been sent, is not
  returned.
\<close>

theorem findDueForNotification_counterexample:
  "isActive sentReminder \<and> \<not> isCompleted sentReminder \<and>
   reminderDateTime sentReminder \<le> 1704103500000 \<and> \<not> isSnoozed sentReminder \<and>
   sentReminder \<notin> set (findDueForNotification 1704103500000 [sentReminder])"
  by (simp add: findDueForNotification_def dueForNotification_def sentReminder_def
      newReminder_def)

section \<open>The authorization middleware\<close>

text \<open>
  The middleware of \<^verbatim>\<open>src/unnamed/part_000\<close>. A middleware either passes the request,
  possibly with more attached to it, to the next stage (\<^verbatim>\<open>next()\<close>), or answers it
  (\<^verbatim>\<open>res.status(s).json(body)\<close>). A JSON body is the list of its keys and values in
  the order in which the object literal gives them.

  The fields of the user document, of the verified token and of the stored resource
  carry a prefix where their names are those of reminder fields.
\<close>

datatype json = JNull | JBool bool | JNumber int | JString string

record Response =
  status :: int
  body :: "(string \<times> json) list"

datatype 'q outcome = Next 'q | Respond Response

record User =
  user_id :: string
  user_firebaseUid :: string
  user_email :: string
  user_displayName :: string
  user_photoURL :: "string option"
  user_emailVerified :: bool
  user_isActive :: bool
  user_lastLogin :: int

record DecodedToken =
  uid :: string
  email :: "string option"
  name :: "string option"
  picture :: "string option"
  email_verified :: "bool option"

text \<open>
  A stored document of any model that the ownership gate is used with: its owner by
  internal id (\<^verbatim>\<open>resource.user\<close>) and by external identity (\<^verbatim>\<open>resource.firebaseUid\<close>).
\<close>

record Resource =
  resource_user :: string
  resource_firebaseUid :: string

text \<open>
  The request: the \<^verbatim>\<open>Authorization\<close> header, the route parameters, and what the
  middleware attaches (\<^verbatim>\<open>req.user\<close>, \<^verbatim>\<open>req.firebaseUser\<close>, \<^verbatim>\<open>req.resource\<close>).
\<close>

record 'r Request =
  authorization :: "string option"
  params :: "string \<rightharpoonup> string"
  req_user :: "User option"
  firebaseUser :: "DecodedToken option"
  resource :: "'r option"

subsection \<open>The per-user rate limiter\<close>

text \<open>
  \<^verbatim>\<open>createUserRateLimit(windowMs, max, message)\<close> (lines 192-222) creates the table
  \<^verbatim>\<open>userRequests\<close>, empty, and returns the middleware that owns it. The middleware is
  modelled as a function of the clock reading \<open>now\<close>, the request and the table, which
  returns the outcome and the table afterwards. \<open>num\<close> is the conversion of a Number to
  a string that the template literal of the default message applies, and \<open>orElse\<close>
  the operator \<^verbatim>\<open>||\<close> on a string that may be absent: the empty string is falsy.
  \<^verbatim>\<open>recentRequests[0]\<close> of an empty array is \<^verbatim>\<open>undefined\<close>, which makes \<^verbatim>\<open>retryAfter\<close>
  \<^verbatim>\<open>NaN\<close>, written as \<^verbatim>\<open>null\<close> in JSON.
\<close>

definition newUserRequests :: "string \<rightharpoonup> int list" where
  "newUserRequests = Map.empty"

definition orElse :: "string option \<Rightarrow> string \<Rightarrow> string" where
  "orElse a b = (case a of None \<Rightarrow> b | Some s \<Rightarrow> if s = [] then b else s)"

definition createUserRateLimit ::
  "(real \<Rightarrow> string) \<Rightarrow> int \<Rightarrow> int \<Rightarrow> string option \<Rightarrow>
   int \<Rightarrow> 'r Request \<Rightarrow> (string \<rightharpoonup> int list) \<Rightarrow>
   'r Request outcome \<times> (string \<rightharpoonup> int list)" where
  "createUserRateLimit num windowMs max' message now req userRequests =
     (case req_user req of
        None \<Rightarrow> (Next req, userRequests)
      | Some u \<Rightarrow>
          let userId = user_id u;
              windowStart = now - windowMs;
              userRequestTimes = (case userRequests userId of None \<Rightarrow> [] | Some ts \<Rightarrow> ts);
              recentRequests = filter (\<lambda>time. time > windowStart) userRequestTimes
          in if int (length recentRequests) \<ge> max' then
               (Respond
                  \<lparr>status = 429,
                   body =
                     [(''success'', JBool False),
                      (''message'',
                         JString
                           (orElse message
                              (''Too many requests. Maximum '' @ num (real_of_int max') @
                               '' requests per '' @ num (real_of_int windowMs / 1000) @
                               '' seconds.''))),
                      (''retryAfter'',
                         (case recentRequests of
                            [] \<Rightarrow> JNull
                          | t0 # _ \<Rightarrow> JNumber \<lceil>real_of_int (t0 + windowMs - now) / 1000\<rceil>))]\<rparr>,
                userRequests)
             else (Next req, userRequests(userId \<mapsto> recentRequests @ [now])))"

subsection \<open>The ownership gate\<close>

text \<open>
  \<^verbatim>\<open>validateResourceOwnership(resourceModel, resourceParam)\<close> (lines 156-189).
  \<open>findById\<close> is \<^verbatim>\<open>resourceModel.findById\<close>: given the value of the route parameter it
  yields the stored document or \<^verbatim>\<open>null\<close>, or it throws (\<open>Inl\<close> the message), as it does
  for an id that is not well-formed. Reading \<^verbatim>\<open>req.user._id\<close> or
  \<^verbatim>\<open>req.firebaseUser.uid\<close> of a request to which the authentication stage attached
  nothing throws a TypeError; \<^verbatim>\<open>&&\<close> evaluates its right operand only when the left one
  is true. Everything thrown inside the \<^verbatim>\<open>try\<close> is answered with status 500.
\<close>

definition internalServerError :: Response where
  "internalServerError =
     \<lparr>status = 500,
      body = [(''success'', JBool False), (''message'', JString ''Internal server error'')]\<rparr>"

definition validateResourceOwnership ::
  "(string option \<Rightarrow> string + 'a Resource_scheme option) \<Rightarrow> string \<Rightarrow>
   'a Resource_scheme Request \<Rightarrow> 'a Resource_scheme Request outcome" where
  "validateResourceOwnership findById resourceParam req =
     (let resourceId = params req resourceParam in
      case findById resourceId of
        Inl error \<Rightarrow> Respond internalServerError
      | Inr None \<Rightarrow>
          Respond
            \<lparr>status = 404,
             body = [(''success'', JBool False), (''message'', JString ''Resource not found'')]\<rparr>
      | Inr (Some res) \<Rightarrow>
          (case req_user req of
             None \<Rightarrow> Respond internalServerError
           | Some u \<Rightarrow>
               if resource_user res \<noteq> user_id u then
                 (case firebaseUser req of
                    None \<Rightarrow> Respond internalServerError
                  | Some fu \<Rightarrow>
                      if resource_firebaseUid res \<noteq> uid fu then
                        Respond
                          \<lparr>status = 403,
                           body =
                             [(''success'', JBool False),
                              (''message'',
                                 JString ''Access denied: You do not own this resource'')]\<rparr>
                      else Next (req\<lparr>resource := Some res\<rparr>))
               else Next (req\<lparr>resource := Some res\<rparr>)))"

subsection \<open>Required authentication\<close>

text \<open>
  \<^verbatim>\<open>authenticateToken\<close> (lines 5-70) awaits four collaborators in turn: the identity
  verifier \<^verbatim>\<open>verifyIdToken\<close> of \<^verbatim>\<open>../config/firebase\<close>, and the user directory
  \<^verbatim>\<open>User.findByFirebaseUid\<close>, \<^verbatim>\<open>User.createFromFirebase\<close> and
  \<^verbatim>\<open>user.updateLastLogin\<close>, which query and write the database. They are parameters of
  the model: each yields its result or throws (\<open>Inl\<close> the message of the error). The
  model returns, with the outcome, the list of the calls made, in order.
\<close>

record FirebaseProfile =
  profile_uid :: string
  profile_email :: "string option"
  profile_displayName :: string
  profile_photoURL :: "string option"
  profile_emailVerified :: bool

record Collaborators =
  verifyIdToken :: "string \<Rightarrow> string + DecodedToken"
  findByFirebaseUid :: "string \<Rightarrow> string + User option"
  createFromFirebase :: "FirebaseProfile \<Rightarrow> string + User"
  updateLastLogin :: "User \<Rightarrow> string + User"

datatype call =
    VerifyIdToken string
  | FindByFirebaseUid string
  | CreateFromFirebase FirebaseProfile
  | UpdateLastLogin User

text \<open>\<^verbatim>\<open>s.split(c)\<close> for a separator of one character: the pieces between its occurrences.\<close>

fun splitString :: "char \<Rightarrow> string \<Rightarrow> string list" where
  "splitString c [] = [[]]"
| "splitString c (x # xs) =
     (if x = c then [] # splitString c xs
      else (case splitString c xs of
              [] \<Rightarrow> [[x]]
            | w # ws \<Rightarrow> (x # w) # ws))"

text \<open>
  \<^verbatim>\<open>authHeader && authHeader.split(' ')[1]\<close>: \<open>None\<close> is \<^verbatim>\<open>undefined\<close>. An empty header
  is falsy and is the value of the conjunction.
\<close>

definition tokenOf :: "string option \<Rightarrow> string option" where
  "tokenOf authHeader =
     (case authHeader of
        None \<Rightarrow> None
      | Some h \<Rightarrow>
          if h = [] then Some []
          else (case splitString (CHR '' '') h of
                  _ # t # _ \<Rightarrow> Some t
                | _ \<Rightarrow> None))"

definition accessTokenRequired :: Response where
  "accessTokenRequired =
     \<lparr>status = 401,
      body = [(''success'', JBool False), (''message'', JString ''Access token required'')]\<rparr>"

text \<open>The \<^verbatim>\<open>catch\<close> block: the answer is chosen by the message of the error.\<close>

definition authError :: "string \<Rightarrow> Response" where
  "authError message =
     (if sublist ''expired'' message then
        \<lparr>status = 401,
         body = [(''success'', JBool False), (''message'', JString ''Token has expired''),
                 (''code'', JString ''TOKEN_EXPIRED'')]\<rparr>
      else if sublist ''Invalid token'' message \<or> sublist ''invalid'' message then
        \<lparr>status = 401,
         body = [(''success'', JBool False),
                 (''message'', JString ''Invalid authentication token''),
                 (''code'', JString ''INVALID_TOKEN'')]\<rparr>
      else
        \<lparr>status = 401,
         body = [(''success'', JBool False), (''message'', JString ''Authentication failed''),
                 (''code'', JString ''AUTH_FAILED'')]\<rparr>)"

text \<open>
  \<^verbatim>\<open>decodedToken.name || decodedToken.email.split('@')[0]\<close>: without a name, a token
  without an email throws the TypeError of reading a property of \<^verbatim>\<open>undefined\<close>.
\<close>

definition displayNameOf :: "DecodedToken \<Rightarrow> string + string" where
  "displayNameOf decodedToken =
     (case name decodedToken of
        Some n \<Rightarrow>
          if n \<noteq> [] then Inr n
          else (case email decodedToken of
                  None \<Rightarrow> Inl ''Cannot read properties of undefined (reading 'split')''
                | Some e \<Rightarrow> Inr (hd (splitString (CHR ''@'') e)))
      | None \<Rightarrow>
          (case email decodedToken of
             None \<Rightarrow> Inl ''Cannot read properties of undefined (reading 'split')''
           | Some e \<Rightarrow> Inr (hd (splitString (CHR ''@'') e))))"

definition authenticateToken ::
  "Collaborators \<Rightarrow> 'r Request \<Rightarrow> 'r Request outcome \<times> call list" where
  "authenticateToken env req =
     (let authHeader = authorization req;
          token = tokenOf authHeader
      in case token of
           None \<Rightarrow> (Respond accessTokenRequired, [])
         | Some tok \<Rightarrow>
             if tok = [] then (Respond accessTokenRequired, [])
             else
               (case verifyIdToken env tok of
                  Inl error \<Rightarrow> (Respond (authError error), [VerifyIdToken tok])
                | Inr decodedToken \<Rightarrow>
                    (case findByFirebaseUid env (uid decodedToken) of
                       Inl error \<Rightarrow>
                         (Respond (authError error),
                          [VerifyIdToken tok, FindByFirebaseUid (uid decodedToken)])
                     | Inr None \<Rightarrow>
                         (case displayNameOf decodedToken of
                            Inl error \<Rightarrow>
                              (Respond (authError error),
                               [VerifyIdToken tok, FindByFirebaseUid (uid decodedToken)])
                          | Inr displayName \<Rightarrow>
                              let profile =
                                \<lparr>profile_uid = uid decodedToken,
                                 profile_email = email decodedToken,
                                 profile_displayName = displayName,
                                 profile_photoURL =
                                   (case picture decodedToken of
                                      None \<Rightarrow> None
                                    | Some p \<Rightarrow> if p = [] then None else Some p),
                                 profile_emailVerified =
                                   (case email_verified decodedToken of
                                      None \<Rightarrow> False
                                    | Some v \<Rightarrow> v)\<rparr>
                              in (case createFromFirebase env profile of
                                    Inl error \<Rightarrow>
                                      (Respond (authError error),
                                       [VerifyIdToken tok, FindByFirebaseUid (uid decodedToken),
                                        CreateFromFirebase profile])
                                  | Inr created \<Rightarrow>
                                      (Next (req\<lparr>req_user := Some created,
                                                firebaseUser := Some decodedToken\<rparr>),
                                       [VerifyIdToken tok, FindByFirebaseUid (uid decodedToken),
                                        CreateFromFirebase profile])))
                     | Inr (Some found) \<Rightarrow>
                         (case updateLastLogin env found of
                            Inl error \<Rightarrow>
                              (Respond (authError error),
                               [VerifyIdToken tok, FindByFirebaseUid (uid decodedToken),
                                UpdateLastLogin found])
                          | Inr saved \<Rightarrow>
                              (Next (req\<lparr>req_user := Some saved,
                                        firebaseUser := Some decodedToken\<rparr>),
                               [VerifyIdToken tok, FindByFirebaseUid (uid decodedToken),
                                UpdateLastLogin found])))))"

text \<open>
  In the words of the claim: a header carries a token when something other than a space
  follows its first space. \<open>secondWord\<close> is what stands between the first space of the
  header and the next.
\<close>

definition secondWord :: "string \<Rightarrow> string" where
  "secondWord h =
     takeWhile (\<lambda>c. c \<noteq> CHR '' '') (drop 1 (dropWhile (\<lambda>c. c \<noteq> CHR '' '') h))"

definition carriesNoToken :: "string option \<Rightarrow> bool" where
  "carriesNoToken authHeader = (case authHeader of None \<Rightarrow> True | Some h \<Rightarrow> secondWord h = [])"

subsection \<open>Concrete requests\<close>

text \<open>What a client sees of an outcome: the status and the fields of the body.\<close>

definition statusOf :: "'q outcome \<Rightarrow> int option" where
  "statusOf out = (case out of Next _ \<Rightarrow> None | Respond res \<Rightarrow> Some (status res))"

definition fieldOf :: "string \<Rightarrow> 'q outcome \<Rightarrow> json option" where
  "fieldOf key out = (case out of Next _ \<Rightarrow> None | Respond res \<Rightarrow> map_of (body res) key)"

definition alice :: User where
  "alice =
     \<lparr>user_id = ''65a000000000000000000001'', user_firebaseUid = ''uid-A'',
      user_email = ''alice@example.org'', user_displayName = ''alice'',
      user_photoURL = None, user_emailVerified = True, user_isActive = True,
      user_lastLogin = 1704103200000\<rparr>"

definition bob :: User where
  "bob =
     \<lparr>user_id = ''65a000000000000000000002'', user_firebaseUid = ''uid-B'',
      user_email = ''bob@example.org'', user_displayName = ''bob'',
      user_photoURL = None, user_emailVerified = True, user_isActive = True,
      user_lastLogin = 1704103200000\<rparr>"

text \<open>The record of alice as a later login leaves it.\<close>

definition laterAlice :: User where
  "laterAlice = alice\<lparr>user_lastLogin := 1704103200300\<rparr>"

definition tokenFor :: "User \<Rightarrow> DecodedToken" where
  "tokenFor u =
     \<lparr>uid = user_firebaseUid u, email = Some (user_email u), name = Some (user_displayName u),
      picture = None, email_verified = Some True\<rparr>"

definition aliceNote :: Resource where
  "aliceNote = \<lparr>resource_user = ''65a000000000000000000001'', resource_firebaseUid = ''uid-A''\<rparr>"

text \<open>A store that holds the note of alice under one id, and nothing else.\<close>

definition noteStore :: "string option \<Rightarrow> string + Resource option" where
  "noteStore i = (if i = Some ''65a0000000000000000000aa'' then Inr (Some aliceNote) else Inr None)"

definition requestBy :: "User \<Rightarrow> string \<Rightarrow> Resource Request" where
  "requestBy u i =
     \<lparr>authorization = Some ''Bearer eyJhbGciOi'', params = [''id'' \<mapsto> i],
      req_user = Some u, firebaseUser = Some (tokenFor u), resource = None\<rparr>"

definition bareRequest :: "Resource Request" where
  "bareRequest =
     \<lparr>authorization = None, params = Map.empty, req_user = None, firebaseUser = None,
      resource = None\<rparr>"

text \<open>Collaborators that are out of reach: every call throws.\<close>

definition offline :: Collaborators where
  "offline =
     \<lparr>verifyIdToken = (\<lambda>_. Inl ''unavailable''),
      findByFirebaseUid = (\<lambda>_. Inl ''unavailable''),
      createFromFirebase = (\<lambda>_. Inl ''unavailable''),
      updateLastLogin = (\<lambda>_. Inl ''unavailable'')\<rparr>"

section \<open>Properties of the middleware\<close>

subsection \<open>Auxiliary facts\<close>

lemma limiter_pass:
  assumes "req_user q = Some u"
    and "ts = (case s (user_id u) of None \<Rightarrow> [] | Some ts \<Rightarrow> ts)"
    and "int (length (filter (\<lambda>time. time > now - w) ts)) < m"
  shows "createUserRateLimit num w m msg now q s =
     (Next q, s(user_id u \<mapsto> filter (\<lambda>time. time > now - w) ts @ [now]))"
  using assms by (simp add: createUserRateLimit_def Let_def)

lemma limiter_reject:
  assumes "req_user q = Some u"
    and "filter (\<lambda>time. time > now - w) (case s (user_id u) of None \<Rightarrow> [] | Some ts \<Rightarrow> ts)
         = t0 # rest"
    and "m \<le> int (length (t0 # rest))"
  shows "createUserRateLimit num w m msg now q s =
     (Respond
        \<lparr>status = 429,
         body =
           [(''success'', JBool False),
            (''message'',
               JString
                 (orElse msg
                    (''Too many requests. Maximum '' @ num (real_of_int m) @
                     '' requests per '' @ num (real_of_int w / 1000) @ '' seconds.''))),
            (''retryAfter'', JNumber \<lceil>real_of_int (t0 + w - now) / 1000\<rceil>)]\<rparr>,
      s)"
  using assms by (simp add: createUserRateLimit_def Let_def)

lemma splitString_not_Nil: "splitString c s \<noteq> []"
  by (induction s) (auto split: list.splits)

lemma hd_splitString: "hd (splitString c s) = takeWhile (\<lambda>x. x \<noteq> c) s"
  by (induction s) (auto split: list.splits simp add: splitString_not_Nil)

lemma tl_splitString:
  "tl (splitString c s) =
     (if c \<in> set s then splitString c (drop 1 (dropWhile (\<lambda>x. x \<noteq> c) s)) else [])"
  by (induction s) (auto split: list.splits simp add: splitString_not_Nil)

lemma tokenOf_falsy:
  "(tokenOf authHeader = None \<or> tokenOf authHeader = Some []) \<longleftrightarrow> carriesNoToken authHeader"
proof (cases authHeader)
  case None
  then show ?thesis by (simp add: tokenOf_def carriesNoToken_def)
next
  case (Some h)
  show ?thesis
  proof (cases "h = []")
    case True
    with Some show ?thesis by (simp add: tokenOf_def carriesNoToken_def secondWord_def)
  next
    case False
    obtain w ws where split: "splitString (CHR '' '') h = w # ws"
      using splitString_not_Nil [of "CHR '' ''" h] by (cases "splitString (CHR '' '') h") auto
    then have ws: "ws = tl (splitString (CHR '' '') h)"
      by simp
    show ?thesis
    proof (cases "CHR '' '' \<in> set h")
      case True
      let ?rest = "drop 1 (dropWhile (\<lambda>x. x \<noteq> CHR '' '') h)"
      from True ws have "ws = splitString (CHR '' '') ?rest"
        by (simp add: tl_splitString)
      moreover obtain t ts where "splitString (CHR '' '') ?rest = t # ts"
        using splitString_not_Nil [of "CHR '' ''" ?rest]
        by (cases "splitString (CHR '' '') ?rest") auto
      moreover from this have "t = secondWord h"
        using hd_splitString [of "CHR '' ''" ?rest] by (simp add: secondWord_def)
      ultimately show ?thesis
        using Some False split by (simp add: tokenOf_def carriesNoToken_def)
    next
      case False
      then have nil: "dropWhile (\<lambda>c. c \<noteq> CHR '' '') h = []"
        by (auto simp add: dropWhile_eq_Nil_conv)
      have word: "secondWord h = []"
        unfolding secondWord_def nil by simp
      from False ws have "ws = []"
        by (simp add: tl_splitString)
      with word show ?thesis
        using Some \<open>h \<noteq> []\<close> split by (simp add: tokenOf_def carriesNoToken_def)
    qed
  qed
qed

subsection \<open>The claims about the middleware\<close>

text \<open>
  Claim C6, as amended. For every request that reaches the ownership gate with the user
  record and the verified token attached, and whose resource lookup returns: if no
  resource with that id exists, the gate answers with status 404; if the resource exists
  but neither its internal owner reference equals the internal id of the requester nor
  its external identity id equals the subject id of the requester, it answers with status
  403 and the message \<open>Access denied: You do not own this resource\<close>, a body without a
  \<open>code\<close>; otherwise it attaches the loaded resource to the request and passes control
  to the next stage.
\<close>

theorem ownership_gate:
  assumes "req_user req = Some u" and "firebaseUser req = Some fu"
    and "findById (params req resourceParam) = Inr found"
  shows "validateResourceOwnership findById resourceParam req =
     (case found of
        None \<Rightarrow>
          Respond
            \<lparr>status = 404,
             body = [(''success'', JBool False), (''message'', JString ''Resource not found'')]\<rparr>
      | Some res \<Rightarrow>
          if resource_user res \<noteq> user_id u \<and> resource_firebaseUid res \<noteq> uid fu then
            Respond
              \<lparr>status = 403,
               body =
                 [(''success'', JBool False),
                  (''message'', JString ''Access denied: You do not own this resource'')]\<rparr>
          else Next (req\<lparr>resource := Some res\<rparr>))"
  using assms by (simp add: validateResourceOwnership_def split: option.splits)

text \<open>
  The theorem at the note of alice: alice passes, bob is denied, and an id that the
  store does not hold is not found.
\<close>

theorem ownership_gate_witness:
  "validateResourceOwnership noteStore ''id'' (requestBy alice ''65a0000000000000000000aa'') =
     Next ((requestBy alice ''65a0000000000000000000aa'')\<lparr>resource := Some aliceNote\<rparr>) \<and>
   validateResourceOwnership noteStore ''id'' (requestBy bob ''65a0000000000000000000aa'') =
     Respond \<lparr>status = 403,
       body = [(''success'', JBool False),
               (''message'', JString ''Access denied: You do not own this resource'')]\<rparr> \<and>
   validateResourceOwnership noteStore ''id'' (requestBy alice ''65a0000000000000000000bb'') =
     Respond \<lparr>status = 404,
       body = [(''success'', JBool False), (''message'', JString ''Resource not found'')]\<rparr>"
proof -
  have a: "req_user (requestBy alice i) = Some alice"
    "firebaseUser (requestBy alice i) = Some (tokenFor alice)"
    "params (requestBy alice i) ''id'' = Some i" for i
    by (simp_all add: requestBy_def)
  have b: "req_user (requestBy bob i) = Some bob"
    "firebaseUser (requestBy bob i) = Some (tokenFor bob)"
    "params (requestBy bob i) ''id'' = Some i" for i
    by (simp_all add: requestBy_def)
  have found: "noteStore (Some ''65a0000000000000000000aa'') = Inr (Some aliceNote)"
    and absent: "noteStore (Some ''65a0000000000000000000bb'') = Inr None"
    by (simp_all add: noteStore_def)
  have ids: "resource_user aliceNote = user_id alice" "resource_user aliceNote \<noteq> user_id bob"
    "resource_firebaseUid aliceNote \<noteq> uid (tokenFor bob)"
    by (simp_all add: aliceNote_def alice_def bob_def tokenFor_def)
  from ownership_gate [where req = "requestBy alice ''65a0000000000000000000aa''"
      and u = alice and fu = "tokenFor alice" and findById = noteStore
      and resourceParam = "''id''" and found = "Some aliceNote"]
    ownership_gate [where req = "requestBy bob ''65a0000000000000000000aa''"
      and u = bob and fu = "tokenFor bob" and findById = noteStore
      and resourceParam = "''id''" and found = "Some aliceNote"]
    ownership_gate [where req = "requestBy alice ''65a0000000000000000000bb''"
      and u = alice and fu = "tokenFor alice" and findById = noteStore
      and resourceParam = "''id''" and found = None]
    a b found absent ids
  show ?thesis
    by simp
qed

text \<open>
  Claim C6 as stated gives the denial the code \<open>ACCESS_DENIED\<close>: the answer to bob has
  status 403 and no such field.
\<close>

theorem ownership_gate_counterexample:
  "statusOf (validateResourceOwnership noteStore ''id''
      (requestBy bob ''65a0000000000000000000aa'')) = Some 403 \<and>
   fieldOf ''code'' (validateResourceOwnership noteStore ''id''
      (requestBy bob ''65a0000000000000000000aa'')) \<noteq> Some (JString ''ACCESS_DENIED'')"
  by (simp add: validateResourceOwnership_def noteStore_def requestBy_def aliceNote_def
      bob_def tokenFor_def statusOf_def fieldOf_def)

text \<open>
  Claim C7. For every authenticated user, a limiter with \<open>max = 3\<close> and
  \<open>windowMs = 1000\<close>, in whose table every timestamp of the user lies outside the window
  at \<open>t1\<close>, lets three requests of the user at times \<open>t1 \<le> t2 \<le> t3\<close> pass; a fourth
  at \<open>t4\<close>, less than 1000 ms after the first, is answered with status 429 and a
  \<open>retryAfter\<close> that is the ceiling of the seconds until the oldest timestamp in the
  window, \<open>t1\<close>, leaves it, an integer that is not negative; a request at \<open>t5\<close>, when
  the window of the first has elapsed, passes again. The five requests carry user
  records with the same id \<open>k\<close>. A request without a user passes any limiter and
  leaves its table as it was.
\<close>

theorem rate_limit_three_per_second:
  "(req_user q1 = Some u1 \<and> req_user q2 = Some u2 \<and> req_user q3 = Some u3 \<and>
    req_user q4 = Some u4 \<and> req_user q5 = Some u5 \<and>
    user_id u1 = k \<and> user_id u2 = k \<and> user_id u3 = k \<and> user_id u4 = k \<and> user_id u5 = k \<and>
    (\<forall>t \<in> set (case s0 k of None \<Rightarrow> [] | Some ts \<Rightarrow> ts). t \<le> t1 - 1000) \<and>
    t1 \<le> t2 \<and> t2 \<le> t3 \<and> t3 \<le> t4 \<and> t4 < t1 + 1000 \<and> t1 + 1000 \<le> t5 \<longrightarrow>
    (let limiter = createUserRateLimit num 1000 3 message;
         (o1, s1) = limiter t1 q1 s0;
         (o2, s2) = limiter t2 q2 s1;
         (o3, s3) = limiter t3 q3 s2;
         (o4, s4) = limiter t4 q4 s3;
         (o5, s5) = limiter t5 q5 s4
     in o1 = Next q1 \<and> o2 = Next q2 \<and> o3 = Next q3 \<and>
        (\<exists>res. o4 = Respond res \<and> status res = 429 \<and>
           map_of (body res) ''retryAfter'' =
             Some (JNumber \<lceil>real_of_int (t1 + 1000 - t4) / 1000\<rceil>) \<and>
           0 \<le> \<lceil>real_of_int (t1 + 1000 - t4) / 1000\<rceil>) \<and>
        o5 = Next q5)) \<and>
   (req_user q = None \<longrightarrow>
      createUserRateLimit num windowMs max' message now q s = (Next q, s))"
proof (intro conjI impI)
  assume "req_user q = None"
  then show "createUserRateLimit num windowMs max' message now q s = (Next q, s)"
    by (simp add: createUserRateLimit_def)
next
  assume hyps: "req_user q1 = Some u1 \<and> req_user q2 = Some u2 \<and> req_user q3 = Some u3 \<and>
    req_user q4 = Some u4 \<and> req_user q5 = Some u5 \<and>
    user_id u1 = k \<and> user_id u2 = k \<and> user_id u3 = k \<and> user_id u4 = k \<and> user_id u5 = k \<and>
    (\<forall>t \<in> set (case s0 k of None \<Rightarrow> [] | Some ts \<Rightarrow> ts). t \<le> t1 - 1000) \<and>
    t1 \<le> t2 \<and> t2 \<le> t3 \<and> t3 \<le> t4 \<and> t4 < t1 + 1000 \<and> t1 + 1000 \<le> t5"
  let ?L = "createUserRateLimit num 1000 3 message"
  let ?old = "case s0 k of None \<Rightarrow> [] | Some ts \<Rightarrow> ts"
  from hyps have "\<forall>t \<in> set ?old. \<not> t > t1 - 1000"
    by auto
  then have stale: "filter (\<lambda>time. time > t1 - 1000) ?old = []"
    by (simp only: filter_False)
  have c1: "?L t1 q1 s0 = (Next q1, s0(k \<mapsto> [t1]))"
    using hyps stale limiter_pass [of q1 u1 ?old s0 t1 1000 3 num message] by simp
  have c2: "?L t2 q2 (s0(k \<mapsto> [t1])) = (Next q2, s0(k \<mapsto> [t1, t2]))"
    using hyps limiter_pass [of q2 u2 "[t1]" "s0(k \<mapsto> [t1])" t2 1000 3 num message] by simp
  have c3: "?L t3 q3 (s0(k \<mapsto> [t1, t2])) = (Next q3, s0(k \<mapsto> [t1, t2, t3]))"
    using hyps limiter_pass [of q3 u3 "[t1, t2]" "s0(k \<mapsto> [t1, t2])" t3 1000 3 num message]
    by simp
  have c4: "?L t4 q4 (s0(k \<mapsto> [t1, t2, t3])) =
     (Respond
        \<lparr>status = 429,
         body =
           [(''success'', JBool False),
            (''message'',
               JString
                 (orElse message
                    (''Too many requests. Maximum '' @ num (real_of_int 3) @
                     '' requests per '' @ num (real_of_int 1000 / 1000) @ '' seconds.''))),
            (''retryAfter'', JNumber \<lceil>real_of_int (t1 + 1000 - t4) / 1000\<rceil>)]\<rparr>,
      s0(k \<mapsto> [t1, t2, t3]))"
    using hyps
      limiter_reject [of q4 u4 t4 1000 "s0(k \<mapsto> [t1, t2, t3])" t1 "[t2, t3]" 3 num message]
    by simp
  have short: "int (length (filter (\<lambda>time. time > t5 - 1000) [t1, t2, t3])) < 3"
    using hyps by simp
  have c5: "fst (?L t5 q5 (s0(k \<mapsto> [t1, t2, t3]))) = Next q5"
    using hyps short
      limiter_pass [of q5 u5 "[t1, t2, t3]" "s0(k \<mapsto> [t1, t2, t3])" t5 1000 3 num message]
    by simp
  have "0 < real_of_int (t1 + 1000 - t4) / 1000"
    using hyps by simp
  then have nonneg: "0 \<le> \<lceil>real_of_int (t1 + 1000 - t4) / 1000\<rceil>"
    by (simp only: zero_le_ceiling)
  show "let limiter = createUserRateLimit num 1000 3 message;
         (o1, s1) = limiter t1 q1 s0;
         (o2, s2) = limiter t2 q2 s1;
         (o3, s3) = limiter t3 q3 s2;
         (o4, s4) = limiter t4 q4 s3;
         (o5, s5) = limiter t5 q5 s4
     in o1 = Next q1 \<and> o2 = Next q2 \<and> o3 = Next q3 \<and>
        (\<exists>res. o4 = Respond res \<and> status res = 429 \<and>
           map_of (body res) ''retryAfter'' =
             Some (JNumber \<lceil>real_of_int (t1 + 1000 - t4) / 1000\<rceil>) \<and>
           0 \<le> \<lceil>real_of_int (t1 + 1000 - t4) / 1000\<rceil>) \<and>
        o5 = Next q5"
    using c5 nonneg by (simp add: Let_def c1 c2 c3 c4 split_beta)
qed

text \<open>
  The theorem for alice, who had one request a second before, at 2024-01-01T10:00:00.000Z
  and 100, 200, 300 and 1000 ms later, and for a request without a user: \<open>retryAfter\<close>
  is 1.
\<close>

theorem rate_limit_three_per_second_witness:
  "(let limiter = createUserRateLimit (\<lambda>_. []) 1000 3 None;
        (o1, s1) = limiter 1704103200000 (requestBy alice ''65a0000000000000000000aa'')
                     (newUserRequests(''65a000000000000000000001'' \<mapsto> [1704103199000]));
        (o2, s2) = limiter 1704103200100 (requestBy alice ''65a0000000000000000000aa'') s1;
        (o3, s3) = limiter 1704103200200 (requestBy alice ''65a0000000000000000000aa'') s2;
        (o4, s4) = limiter 1704103200300 (requestBy laterAlice ''65a0000000000000000000aa'') s3;
        (o5, s5) = limiter 1704103201000 (requestBy laterAlice ''65a0000000000000000000aa'') s4
    in o1 = Next (requestBy alice ''65a0000000000000000000aa'') \<and>
       o2 = Next (requestBy alice ''65a0000000000000000000aa'') \<and>
       o3 = Next (requestBy alice ''65a0000000000000000000aa'') \<and>
       statusOf o4 = Some 429 \<and> fieldOf ''retryAfter'' o4 = Some (JNumber 1) \<and>
       o5 = Next (requestBy laterAlice ''65a0000000000000000000aa'')) \<and>
   createUserRateLimit (\<lambda>_. []) 1000 3 None 1704103200300 bareRequest
       (newUserRequests(''65a000000000000000000001'' \<mapsto> [1704103200000])) =
     (Next bareRequest, newUserRequests(''65a000000000000000000001'' \<mapsto> [1704103200000]))"
proof -
  let ?q = "requestBy alice ''65a0000000000000000000aa''"
  let ?q' = "requestBy laterAlice ''65a0000000000000000000aa''"
  let ?s0 = "newUserRequests(''65a000000000000000000001'' \<mapsto> [1704103199000])"
  have "req_user ?q = Some alice" and "req_user ?q' = Some laterAlice"
    and "user_id alice = ''65a000000000000000000001''"
    and "user_id laterAlice = ''65a000000000000000000001''"
    and "\<forall>t \<in> set (case ?s0 ''65a000000000000000000001'' of None \<Rightarrow> [] | Some ts \<Rightarrow> ts).
           t \<le> 1704103200000 - 1000"
    and "req_user bareRequest = None"
    by (simp_all add: requestBy_def bareRequest_def alice_def laterAlice_def)
  with rate_limit_three_per_second [where ?q1.0 = ?q and ?q2.0 = ?q and ?q3.0 = ?q
      and ?q4.0 = ?q' and ?q5.0 = ?q' and ?u1.0 = alice and ?u2.0 = alice and ?u3.0 = alice
      and ?u4.0 = laterAlice and ?u5.0 = laterAlice and k = "''65a000000000000000000001''"
      and ?s0.0 = ?s0
      and ?t1.0 = 1704103200000 and ?t2.0 = 1704103200100 and ?t3.0 = 1704103200200
      and ?t4.0 = 1704103200300 and ?t5.0 = 1704103201000
      and num = "\<lambda>_. []" and message = None and q = bareRequest
      and windowMs = 1000 and max' = 3 and now = 1704103200300
      and s = "newUserRequests(''65a000000000000000000001'' \<mapsto> [1704103200000])"]
  show ?thesis
    by (auto simp add: Let_def split_beta statusOf_def fieldOf_def)
qed

text \<open>
  Claim C8, as amended. For every request whose \<open>Authorization\<close> header is absent, or
  in which no token stands between the first space of the header and the next (the
  header has no space, or ends with its first space, or has another space right after
  it), the required-authentication stage answers with status 401 and the message
  \<open>Access token required\<close>, a body without a \<open>code\<close>, and calls neither the identity
  verifier nor the user directory: the list of calls is empty.
\<close>

theorem no_token_rejected:
  assumes "carriesNoToken (authorization req)"
  shows "authenticateToken env req = (Respond accessTokenRequired, []) \<and>
         status accessTokenRequired = 401 \<and>
         body accessTokenRequired =
           [(''success'', JBool False), (''message'', JString ''Access token required'')]"
proof -
  from assms have "tokenOf (authorization req) = None \<or> tokenOf (authorization req) = Some []"
    by (simp add: tokenOf_falsy)
  then have "authenticateToken env req = (Respond accessTokenRequired, [])"
    by (auto simp add: authenticateToken_def)
  then show ?thesis
    by (simp add: accessTokenRequired_def)
qed

text \<open>The theorem at a request without the header, and at the header \<open>Bearer\<close>.\<close>

theorem no_token_rejected_witness:
  "carriesNoToken (authorization bareRequest) \<and>
   carriesNoToken (Some ''Bearer'') \<and>
   authenticateToken offline bareRequest = (Respond accessTokenRequired, []) \<and>
   authenticateToken offline (bareRequest\<lparr>authorization := Some ''Bearer''\<rparr>) =
     (Respond accessTokenRequired, [])"
proof -
  have none: "carriesNoToken (authorization bareRequest)"
    by (simp add: carriesNoToken_def bareRequest_def)
  have word: "carriesNoToken (authorization (bareRequest\<lparr>authorization := Some ''Bearer''\<rparr>))"
    by (simp add: carriesNoToken_def secondWord_def)
  from no_token_rejected [OF none, of offline] no_token_rejected [OF word, of offline] none word
  show ?thesis
    by simp
qed

text \<open>
  Claim C8 as stated gives the answer the code \<open>AUTH_FAILED\<close>: the answer to a request
  without the header has status 401 and no such field. \<open>AUTH_FAILED\<close> is the code of
  the last branch of \<open>authError\<close>, for an error thrown by a collaborator.
\<close>

theorem no_token_rejected_counterexample:
  "authorization bareRequest = None \<and>
   statusOf (fst (authenticateToken offline bareRequest)) = Some 401 \<and>
   fieldOf ''code'' (fst (authenticateToken offline bareRequest)) \<noteq> Some (JString ''AUTH_FAILED'')"
  by (simp add: authenticateToken_def tokenOf_def bareRequest_def accessTokenRequired_def
      statusOf_def fieldOf_def)

text \<open>
  Claim C10. When the limiter answers a request, the answer has status 429 and the table
  is returned as it was: the time of the rejected request is not recorded, for this user
  or any other.
\<close>

theorem rejected_request_not_recorded:
  assumes "fst (createUserRateLimit num windowMs max' message now req userRequests) = Respond res"
  shows "status res = 429 \<and>
         snd (createUserRateLimit num windowMs max' message now req userRequests) = userRequests"
  using assms
  by (auto simp add: createUserRateLimit_def Let_def split: option.splits if_splits)

text \<open>The theorem at the fourth request of alice within one second.\<close>

theorem rejected_request_not_recorded_witness:
  "fst (createUserRateLimit (\<lambda>_. []) 1000 3 (Some ''Slow down'') 300
          (requestBy alice ''65a0000000000000000000aa'')
          (newUserRequests(''65a000000000000000000001'' \<mapsto> [0, 100, 200]))) =
     Respond \<lparr>status = 429,
       body = [(''success'', JBool False), (''message'', JString ''Slow down''),
               (''retryAfter'', JNumber 1)]\<rparr> \<and>
   snd (createUserRateLimit (\<lambda>_. []) 1000 3 (Some ''Slow down'') 300
          (requestBy alice ''65a0000000000000000000aa'')
          (newUserRequests(''65a000000000000000000001'' \<mapsto> [0, 100, 200]))) =
     newUserRequests(''65a000000000000000000001'' \<mapsto> [0, 100, 200])"
proof -
  have answer: "fst (createUserRateLimit (\<lambda>_. []) 1000 3 (Some ''Slow down'') 300
          (requestBy alice ''65a0000000000000000000aa'')
          (newUserRequests(''65a000000000000000000001'' \<mapsto> [0, 100, 200]))) =
     Respond \<lparr>status = 429,
       body = [(''success'', JBool False), (''message'', JString ''Slow down''),
               (''retryAfter'', JNumber 1)]\<rparr>"
    by (simp add: createUserRateLimit_def requestBy_def alice_def orElse_def)
  from rejected_request_not_recorded [OF answer] answer show ?thesis
    by simp
qed

section \<open>The note document\<close>

text \<open>
  The note schema of \<^verbatim>\<open>src/models/User.js\<close> (from line 175) and its instance methods
  (lines 383-450). The record has the paths that the methods and the save hook read or
  write; the others (\<^verbatim>\<open>user\<close>, \<^verbatim>\<open>firebaseUid\<close>, \<^verbatim>\<open>color\<close>, \<^verbatim>\<open>type\<close>,
  \<^verbatim>\<open>attachments\<close>, \<^verbatim>\<open>category\<close>, \<^verbatim>\<open>sharedWith\<close>, \<^verbatim>\<open>reminder\<close>) live in the extension
  part. The paths \<^verbatim>\<open>title\<close> of the note and \<^verbatim>\<open>id\<close>, \<^verbatim>\<open>text\<close>, \<^verbatim>\<open>completed\<close>,
  \<^verbatim>\<open>order\<close> of a list item carry a prefix. Every method ends in \<^verbatim>\<open>this.save()\<close>, which
  runs the save hook at the clock reading \<open>now\<close>. The validators of the schema, which
  reject the save of a title, text or label over its \<^verbatim>\<open>maxlength\<close>, are not modelled:
  the notes and labels here are within these limits.
\<close>

record ListItem =
  item_id :: string
  item_text :: string
  item_completed :: bool
  item_order :: int

record Note =
  note_title :: string
  content :: string
  listItems :: "ListItem list"
  labels :: "string list"
  isPinned :: bool
  isArchived :: bool
  isDeleted :: bool
  isFavorite :: bool
  lastModified :: int
  deletedAt :: "int option"
  searchableText :: "string option"

text \<open>\<^verbatim>\<open>xs.join(sep)\<close>, and \<^verbatim>\<open>toLowerCase\<close> on the letters of ASCII.\<close>

fun join :: "string \<Rightarrow> string list \<Rightarrow> string" where
  "join sep [] = []"
| "join sep [x] = x"
| "join sep (x # y # ys) = x @ sep @ join sep (y # ys)"

definition toLowerCase :: "string \<Rightarrow> string" where
  "toLowerCase s =
     map (\<lambda>c. if 65 \<le> (of_char c :: nat) \<and> (of_char c :: nat) \<le> 90
              then char_of (of_char c + 32 :: nat) else c) s"

definition note_pre_save :: "int \<Rightarrow> 'a Note_scheme \<Rightarrow> 'a Note_scheme" where
  "note_pre_save now n =
     n\<lparr>searchableText :=
         Some (toLowerCase
           (join '' '' [note_title n, content n, join '' '' (labels n),
                        join '' '' (map item_text (listItems n))])),
       lastModified := now\<rparr>"

definition note_save :: "int \<Rightarrow> 'a Note_scheme \<Rightarrow> 'a Note_scheme" where
  "note_save now n = note_pre_save now n"

definition togglePin :: "int \<Rightarrow> 'a Note_scheme \<Rightarrow> 'a Note_scheme" where
  "togglePin now n = note_save now (n\<lparr>isPinned := \<not> isPinned n\<rparr>)"

definition toggleArchive :: "int \<Rightarrow> 'a Note_scheme \<Rightarrow> 'a Note_scheme" where
  "toggleArchive now n =
     (let n1 = n\<lparr>isArchived := \<not> isArchived n\<rparr>;
          n2 = (if isArchived n1 then n1\<lparr>isPinned := False\<rparr> else n1)
      in note_save now n2)"

definition toggleFavorite :: "int \<Rightarrow> 'a Note_scheme \<Rightarrow> 'a Note_scheme" where
  "toggleFavorite now n = note_save now (n\<lparr>isFavorite := \<not> isFavorite n\<rparr>)"

definition softDelete :: "int \<Rightarrow> 'a Note_scheme \<Rightarrow> 'a Note_scheme" where
  "softDelete now n =
     note_save now (n\<lparr>isDeleted := True, deletedAt := Some now, isPinned := False\<rparr>)"

definition restore :: "int \<Rightarrow> 'a Note_scheme \<Rightarrow> 'a Note_scheme" where
  "restore now n = note_save now (n\<lparr>isDeleted := False, deletedAt := None\<rparr>)"

text \<open>
  The elements of \<^verbatim>\<open>labels\<close> are declared with \<^verbatim>\<open>trim: true\<close> (lines 275-279): the
  array stores a pushed string with the white space at its two ends removed. \<^verbatim>\<open>addLabel\<close>
  looks for the label as it was passed, with \<^verbatim>\<open>includes\<close>, and pushes it; the
  array stores it trimmed. White space is that of ASCII: the characters 9 to 13 and 32.
\<close>

definition isWhiteSpace :: "char \<Rightarrow> bool" where
  "isWhiteSpace c \<longleftrightarrow>
     (9 \<le> (of_char c :: nat) \<and> (of_char c :: nat) \<le> 13) \<or> (of_char c :: nat) = 32"

definition trim :: "string \<Rightarrow> string" where
  "trim s = rev (dropWhile isWhiteSpace (rev (dropWhile isWhiteSpace s)))"

definition addLabel :: "int \<Rightarrow> string \<Rightarrow> 'a Note_scheme \<Rightarrow> 'a Note_scheme" where
  "addLabel now label n =
     (if label \<notin> set (labels n)
      then note_save now (n\<lparr>labels := labels n @ [trim label]\<rparr>)
      else n)"

definition removeLabel :: "int \<Rightarrow> string \<Rightarrow> 'a Note_scheme \<Rightarrow> 'a Note_scheme" where
  "removeLabel now label n =
     note_save now (n\<lparr>labels := filter (\<lambda>l. l \<noteq> label) (labels n)\<rparr>)"

text \<open>
  A sequence of calls of the public operations, each with the clock reading of its save.
\<close>

datatype noteOp =
    TogglePin | ToggleArchive | ToggleFavorite | SoftDelete | Restore
  | AddLabel string | RemoveLabel string | Save

fun applyOp :: "int \<times> noteOp \<Rightarrow> 'a Note_scheme \<Rightarrow> 'a Note_scheme" where
  "applyOp (now, TogglePin) n = togglePin now n"
| "applyOp (now, ToggleArchive) n = toggleArchive now n"
| "applyOp (now, ToggleFavorite) n = toggleFavorite now n"
| "applyOp (now, SoftDelete) n = softDelete now n"
| "applyOp (now, Restore) n = restore now n"
| "applyOp (now, AddLabel label) n = addLabel now label n"
| "applyOp (now, RemoveLabel label) n = removeLabel now label n"
| "applyOp (now, Save) n = note_save now n"

fun applyOps :: "(int \<times> noteOp) list \<Rightarrow> 'a Note_scheme \<Rightarrow> 'a Note_scheme" where
  "applyOps [] n = n"
| "applyOps (op # ops) n = applyOps ops (applyOp op n)"

text \<open>A note as the schema creates it: every flag false, no labels, no items.\<close>

definition newNote :: Note where
  "newNote =
     \<lparr>note_title = ''Groceries'', content = ''Milk and Bread'', listItems = [], labels = [],
      isPinned = False, isArchived = False, isDeleted = False, isFavorite = False,
      lastModified = 1704103200000, deletedAt = None, searchableText = None\<rparr>"

section \<open>Properties of the note model\<close>

text \<open>
  What the operations do to the pinned flag: archiving and soft-deleting clear it, and
  \<open>togglePin\<close> sets it on any note that is not pinned, whatever its other flags.
\<close>

lemma note_save_flags:
  "isPinned (note_save now n) = isPinned n"
  "isArchived (note_save now n) = isArchived n"
  "isDeleted (note_save now n) = isDeleted n"
  by (simp_all add: note_save_def note_pre_save_def)

lemma toggleArchive_unpins:
  "isArchived (toggleArchive now n) \<Longrightarrow> \<not> isPinned (toggleArchive now n)"
  by (simp add: toggleArchive_def note_save_flags Let_def split: if_splits)

lemma softDelete_unpins: "isDeleted (softDelete now n) \<and> \<not> isPinned (softDelete now n)"
  by (simp add: softDelete_def note_save_flags)

lemma togglePin_pins:
  "\<not> isPinned n \<Longrightarrow>
   isPinned (togglePin now n) \<and> isArchived (togglePin now n) = isArchived n \<and>
   isDeleted (togglePin now n) = isDeleted n"
  by (simp add: togglePin_def note_save_flags)

text \<open>
  Claim C9 says that no sequence of the public note operations reaches a note that is
  pinned and archived, or pinned and deleted. The code does: on a new note,
  \<open>toggleArchive\<close> followed by \<open>togglePin\<close> gives a note that is pinned and archived,
  and \<open>softDelete\<close> followed by \<open>togglePin\<close> one that is pinned and deleted.
\<close>

theorem pinned_archived_reachable:
  "isPinned (applyOps [(1704103260000, ToggleArchive), (1704103320000, TogglePin)] newNote) \<and>
   isArchived (applyOps [(1704103260000, ToggleArchive), (1704103320000, TogglePin)] newNote) \<and>
   isPinned (applyOps [(1704103260000, SoftDelete), (1704103320000, TogglePin)] newNote) \<and>
   isDeleted (applyOps [(1704103260000, SoftDelete), (1704103320000, TogglePin)] newNote)"
  by (simp add: togglePin_def toggleArchive_def softDelete_def note_save_flags newNote_def)

end
